theory Spec2Isabelle
  imports Complex_Main "HOL-Library.Sublist"
begin

section \<open>Python values, exceptions and string helpers\<close>

text \<open>
  The two scripts \<^verbatim>\<open>scripts/monitor.py\<close> and \<^verbatim>\<open>scripts/create_container.py\<close> are
  embedded as HOL functions. Strings are lists of characters (code points below 256).
  Python exceptions are values of the type \<open>exn\<close>; a computation that may raise returns
  \<open>exn + 'a\<close>, with \<open>Inl\<close> for the exception.

  A Python float is an IEEE binary64 value; the section on numbers below models its
  arithmetic with the rounding of every operation.
\<close>

datatype exn =
    KeyError string
  | TypeError
  | IndexError
  | ValueError
  | ZeroDivisionError
  | OverflowError
  | AttributeError string string
  | CalledProcessError string int string string
  | OSError string
  | DockerException string

text \<open>Decoded JSON as the runtime client hands it out: the counters are integers.\<close>

datatype json =
    JNull
  | JInt int
  | JStr string
  | JList "json list"
  | JDict "(string \<times> json) list"

definition bind_exn :: "exn + 'a \<Rightarrow> ('a \<Rightarrow> exn + 'b) \<Rightarrow> exn + 'b" where
  "bind_exn m f = (case m of Inl e \<Rightarrow> Inl e | Inr a \<Rightarrow> f a)"

text \<open>\<^verbatim>\<open>str.isspace\<close> on code points below 256, and \<^verbatim>\<open>str.strip()\<close>.\<close>

definition py_isspace :: "char \<Rightarrow> bool" where
  "py_isspace c = (of_char c \<in> set [9, 10, 11, 12, 13, 28, 29, 30, 31, 32, 133, 160 :: nat])"

definition strip :: "string \<Rightarrow> string" where
  "strip s = rev (dropWhile py_isspace (rev (dropWhile py_isspace s)))"

text \<open>\<^verbatim>\<open>sep.join(xs)\<close>.\<close>

fun join :: "string \<Rightarrow> string list \<Rightarrow> string" where
  "join sep [] = []"
| "join sep [x] = x"
| "join sep (x # y # ys) = x @ sep @ join sep (y # ys)"

text \<open>Decimal rendering of an integer, as \<^verbatim>\<open>str(n)\<close> and \<^verbatim>\<open>f"{n}"\<close> give it.\<close>

definition digit_chr :: "nat \<Rightarrow> char" where
  "digit_chr d = ''0123456789'' ! d"

fun str_nat :: "nat \<Rightarrow> string" where
  "str_nat n = (if n < 10 then [digit_chr n] else str_nat (n div 10) @ [digit_chr (n mod 10)])"

definition str_int :: "int \<Rightarrow> string" where
  "str_int i = (if i < 0 then CHR ''-'' # str_nat (nat (- i)) else str_nat (nat i))"

text \<open>
  \<^verbatim>\<open>int(s)\<close> for a string: surrounding whitespace is dropped, one sign is allowed, and
  the digits may be grouped by single underscores.
\<close>

definition is_digit :: "char \<Rightarrow> bool" where
  "is_digit c = (48 \<le> (of_char c :: nat) \<and> (of_char c :: nat) \<le> 57)"

fun digit_groups :: "string \<Rightarrow> bool" where
  "digit_groups [] = False"
| "digit_groups [c] = is_digit c"
| "digit_groups (c # d # r) =
     (if is_digit c then (if d = CHR ''_'' then digit_groups r else digit_groups (d # r))
      else False)"

definition digits_val :: "string \<Rightarrow> int" where
  "digits_val ds = foldl (\<lambda>a c. 10 * a + (int (of_char c) - int (of_char (CHR ''0'')))) 0 ds"

definition int_of_str :: "string \<Rightarrow> exn + int" where
  "int_of_str s =
     (let t = strip s;
          neg = (case t of [] \<Rightarrow> False | c # r \<Rightarrow> c = CHR ''-'');
          body = (case t of [] \<Rightarrow> []
                  | c # r \<Rightarrow> if c = CHR ''-'' then r else if c = CHR ''+'' then r else t)
      in if digit_groups body
         then Inr ((if neg then - 1 else 1) * digits_val (filter (\<lambda>c. is_digit c) body))
         else Inl ValueError)"

subsection \<open>Numbers\<close>

text \<open>
  A Python number, int or float, is represented by its value: a rational, or one of the two
  infinities, or NaN. So \<^verbatim>\<open>0\<close>, \<^verbatim>\<open>0.0\<close> and \<^verbatim>\<open>-0.0\<close> are one value, as they are for
  \<^verbatim>\<open>==\<close>. A float is a binary64 value: 53 significant bits, exponents of the last bit
  from -1074 to 971. The result of an operation on floats is the exact result rounded to the
  nearest such value, ties to the even one (\<open>fl\<close>); a result of magnitude \<open>2^1024\<close> or more
  after rounding is an infinity.
\<close>

text \<open>The number of binary digits of a natural number.\<close>

fun bits :: "nat \<Rightarrow> nat" where
  "bits n = (if n = 0 then 0 else Suc (bits (n div 2)))"

declare bits.simps [simp del]

text \<open>The integer \<open>k\<close> with \<open>2^k \<le> a < 2^(k+1)\<close>, for a positive \<open>a\<close>.\<close>

definition ilog2 :: "rat \<Rightarrow> int" where
  "ilog2 a = (if 1 \<le> a then int (bits (nat \<lfloor>a\<rfloor>)) - 1
              else - int (bits (nat (\<lceil>1 / a\<rceil> - 1))))"

definition pow2 :: "int \<Rightarrow> rat" where
  "pow2 e = (if 0 \<le> e then 2 ^ nat e else 1 / 2 ^ nat (- e))"

text \<open>The nearest integer, ties to the even one.\<close>

definition round_half_even :: "rat \<Rightarrow> int" where
  "round_half_even y =
     (let n = \<lfloor>y\<rfloor>; d = y - of_int n
      in if d < 1 / 2 then n else if 1 / 2 < d then n + 1 else if even n then n else n + 1)"

datatype pyfloat = Finite rat | PlusInf | MinusInf | NotANumber

text \<open>Rounding an exact value to binary64.\<close>

definition fl :: "rat \<Rightarrow> pyfloat" where
  "fl q =
     (if q = 0 then Finite 0
      else
        (let a = \<bar>q\<bar>;
             e = max (ilog2 a - 52) (- 1074);
             m = round_half_even (a / pow2 e);
             r = of_int m * pow2 e
         in if 2 ^ 1024 \<le> r then (if 0 < q then PlusInf else MinusInf)
            else Finite (if 0 < q then r else - r)))"

text \<open>
  \<^verbatim>\<open>float(n)\<close> for an int, as the mixed operations \<^verbatim>\<open>x * n\<close> do it, and the true
  division \<^verbatim>\<open>a / b\<close> of two ints: both are correctly rounded, and both raise
  \<^verbatim>\<open>OverflowError\<close> when the result is too large for a float.
\<close>

definition float_of_int :: "int \<Rightarrow> exn + pyfloat" where
  "float_of_int n =
     (case fl (of_int n) of Finite r \<Rightarrow> Inr (Finite r) | _ \<Rightarrow> Inl OverflowError)"

definition int_truediv :: "int \<Rightarrow> int \<Rightarrow> exn + pyfloat" where
  "int_truediv a b =
     (if b = 0 then Inl ZeroDivisionError
      else (case fl (of_int a / of_int b) of
              Finite r \<Rightarrow> Inr (Finite r)
            | _ \<Rightarrow> Inl OverflowError))"

text \<open>The product of two floats; an overflow gives an infinity, not an exception.\<close>

fun fmul :: "pyfloat \<Rightarrow> pyfloat \<Rightarrow> pyfloat" where
  "fmul (Finite x) (Finite y) = fl (x * y)"
| "fmul NotANumber y = NotANumber"
| "fmul x NotANumber = NotANumber"
| "fmul (Finite x) PlusInf = (if x = 0 then NotANumber else if 0 < x then PlusInf else MinusInf)"
| "fmul (Finite x) MinusInf = (if x = 0 then NotANumber else if 0 < x then MinusInf else PlusInf)"
| "fmul PlusInf (Finite y) = (if y = 0 then NotANumber else if 0 < y then PlusInf else MinusInf)"
| "fmul MinusInf (Finite y) = (if y = 0 then NotANumber else if 0 < y then MinusInf else PlusInf)"
| "fmul PlusInf PlusInf = PlusInf"
| "fmul PlusInf MinusInf = MinusInf"
| "fmul MinusInf PlusInf = MinusInf"
| "fmul MinusInf MinusInf = PlusInf"

text \<open>\<^verbatim>\<open>x * n\<close> for a float \<open>x\<close> and an int \<open>n\<close>.\<close>

definition fmul_int :: "pyfloat \<Rightarrow> int \<Rightarrow> exn + pyfloat" where
  "fmul_int x n = bind_exn (float_of_int n) (\<lambda>y. Inr (fmul x y))"

text \<open>
  \<^verbatim>\<open>round(x, 2)\<close>: the exact value of \<open>x\<close> is rounded to the nearest multiple of 1/100,
  ties to the even one, and the float nearest to that decimal is returned. Infinities and
  NaN round to themselves. (For an int the value is unchanged, which the first case covers:
  an integer value is its own rounding.)
\<close>

fun py_round2 :: "pyfloat \<Rightarrow> exn + pyfloat" where
  "py_round2 (Finite x) =
     (case fl (of_int (round_half_even (x * 100)) / 100) of
        Finite r \<Rightarrow> Inr (Finite r)
      | _ \<Rightarrow> Inl OverflowError)"
| "py_round2 x = Inr x"

subsection \<open>Operations on decoded JSON\<close>

text \<open>Truth value of an object in a condition.\<close>

fun truthy :: "json \<Rightarrow> bool" where
  "truthy JNull = False"
| "truthy (JInt n) = (n \<noteq> 0)"
| "truthy (JStr s) = (s \<noteq> [])"
| "truthy (JList xs) = (xs \<noteq> [])"
| "truthy (JDict kvs) = (kvs \<noteq> [])"

fun type_name :: "json \<Rightarrow> string" where
  "type_name JNull = ''NoneType''"
| "type_name (JInt n) = ''int''"
| "type_name (JStr s) = ''str''"
| "type_name (JList xs) = ''list''"
| "type_name (JDict kvs) = ''dict''"

text \<open>\<^verbatim>\<open>d.get(k, default)\<close>: only a dict has the method.\<close>

fun dict_get :: "json \<Rightarrow> string \<Rightarrow> json \<Rightarrow> exn + json" where
  "dict_get (JDict kvs) k dflt = Inr (case map_of kvs k of None \<Rightarrow> dflt | Some v \<Rightarrow> v)"
| "dict_get v k dflt = Inl (AttributeError (type_name v) ''get'')"

text \<open>\<^verbatim>\<open>d[k]\<close> with a string key.\<close>

fun subscript :: "json \<Rightarrow> string \<Rightarrow> exn + json" where
  "subscript (JDict kvs) k = (case map_of kvs k of None \<Rightarrow> Inl (KeyError k) | Some v \<Rightarrow> Inr v)"
| "subscript v k = Inl TypeError"

text \<open>\<^verbatim>\<open>x[0]\<close>.\<close>

fun index0 :: "json \<Rightarrow> exn + json" where
  "index0 (JList []) = Inl IndexError"
| "index0 (JList (x # xs)) = Inr x"
| "index0 (JStr []) = Inl IndexError"
| "index0 (JStr (c # cs)) = Inr (JStr [c])"
| "index0 (JDict kvs) = Inl (KeyError ''0'')"
| "index0 v = Inl TypeError"

text \<open>\<^verbatim>\<open>d.items()\<close>.\<close>

fun dict_items :: "json \<Rightarrow> exn + (string \<times> json) list" where
  "dict_items (JDict kvs) = Inr kvs"
| "dict_items v = Inl (AttributeError (type_name v) ''items'')"

fun py_len :: "json \<Rightarrow> exn + int" where
  "py_len (JList xs) = Inr (int (length xs))"
| "py_len (JStr s) = Inr (int (length s))"
| "py_len (JDict kvs) = Inr (int (length kvs))"
| "py_len v = Inl TypeError"

fun py_sub :: "json \<Rightarrow> json \<Rightarrow> exn + int" where
  "py_sub (JInt a) (JInt b) = Inr (a - b)"
| "py_sub u v = Inl TypeError"

text \<open>\<^verbatim>\<open>x > 0\<close>.\<close>

fun py_gt0 :: "json \<Rightarrow> exn + bool" where
  "py_gt0 (JInt a) = Inr (0 < a)"
| "py_gt0 v = Inl TypeError"

text \<open>True division \<^verbatim>\<open>a / b\<close>.\<close>

fun py_truediv :: "json \<Rightarrow> json \<Rightarrow> exn + pyfloat" where
  "py_truediv (JInt a) (JInt b) = int_truediv a b"
| "py_truediv u v = Inl TypeError"

text \<open>\<^verbatim>\<open>int(x)\<close>.\<close>

fun py_int :: "json \<Rightarrow> exn + int" where
  "py_int (JInt n) = Inr n"
| "py_int (JStr s) = int_of_str s"
| "py_int v = Inl TypeError"

section \<open>The stats collector of \<^verbatim>\<open>monitor.py\<close>\<close>

text \<open>
  A container object of the runtime client: its identifier, name, lifecycle status and
  attribute dictionary, and what the call \<^verbatim>\<open>c.stats(stream=False)\<close> gives (a decoded
  snapshot, or an exception).
\<close>

record container =
  c_id :: string
  c_name :: string
  c_status :: string
  c_attrs :: json
  c_stats :: "exn + json"

text \<open>The client object: \<^verbatim>\<open>containers.list(all=...)\<close>.\<close>

record client =
  containers_list :: "bool \<Rightarrow> exn + container list"

text \<open>The dictionary appended to \<^verbatim>\<open>containers_details\<close> for one container.\<close>

record row =
  container_id :: string
  container_name :: string
  row_status :: string
  container_cpu_pct :: pyfloat
  container_mem_pct :: pyfloat
  container_mem_usage_bytes :: json
  container_mem_limit_bytes :: json
  ports :: string

text \<open>
  What the collector does that can be observed, in the order it happens: its log lines, and
  its calls of the runtime client, \<^verbatim>\<open>containers.list(all=...)\<close> and, with the
  identifier of the container, \<^verbatim>\<open>c.stats(stream=False)\<close>.
\<close>

datatype monitor_event =
    Warning_client_init exn
  | Info_client_not_initialized
  | Called_containers_list bool
  | Called_stats string
  | Error_collecting_stats string exn

text \<open>
  Module initialisation: \<^verbatim>\<open>docker.from_env()\<close> inside \<^verbatim>\<open>try\<close>; on an exception
  the warning is logged and \<^verbatim>\<open>docker_client\<close> is \<^verbatim>\<open>None\<close>.
\<close>

definition docker_client_setup :: "exn + client \<Rightarrow> monitor_event list \<times> client option" where
  "docker_client_setup from_env =
     (case from_env of
        Inl e \<Rightarrow> ([Warning_client_init e], None)
      | Inr cl \<Rightarrow> ([], Some cl))"

text \<open>
  \<^verbatim>\<open>cpu_stats.get("online_cpus") or len(cpu_stats["cpu_usage"].get("percpu_usage", [])) or 1\<close>
\<close>

definition online_cpu_count :: "json \<Rightarrow> exn + json" where
  "online_cpu_count cpu_stats =
     bind_exn (dict_get cpu_stats ''online_cpus'' JNull) (\<lambda>reported.
       if truthy reported then Inr reported
       else
         bind_exn (subscript cpu_stats ''cpu_usage'') (\<lambda>cpu_usage.
         bind_exn (dict_get cpu_usage ''percpu_usage'' (JList [])) (\<lambda>percpu.
         bind_exn (py_len percpu) (\<lambda>n.
           Inr (if n \<noteq> 0 then JInt n else JInt 1)))))"

text \<open>The CPU percentage of a snapshot (the block that starts with \<^verbatim>\<open>cpu_percent = 0.0\<close>).\<close>

definition cpu_percent_of :: "json \<Rightarrow> exn + pyfloat" where
  "cpu_percent_of stats =
     bind_exn (dict_get stats ''cpu_stats'' (JDict [])) (\<lambda>cpu_stats.
     bind_exn (dict_get stats ''precpu_stats'' (JDict [])) (\<lambda>precpu_stats.
       if truthy cpu_stats \<and> truthy precpu_stats then
         bind_exn (subscript cpu_stats ''cpu_usage'') (\<lambda>cpu_usage.
         bind_exn (subscript cpu_usage ''total_usage'') (\<lambda>total.
         bind_exn (subscript precpu_stats ''cpu_usage'') (\<lambda>precpu_usage.
         bind_exn (subscript precpu_usage ''total_usage'') (\<lambda>pretotal.
         bind_exn (py_sub total pretotal) (\<lambda>cpu_delta.
         bind_exn (dict_get cpu_stats ''system_cpu_usage'' (JInt 0)) (\<lambda>sys.
         bind_exn (dict_get precpu_stats ''system_cpu_usage'' (JInt 0)) (\<lambda>presys.
         bind_exn (py_sub sys presys) (\<lambda>system_cpu_delta.
         bind_exn (online_cpu_count cpu_stats) (\<lambda>online_cpus.
           if 0 < system_cpu_delta then
             bind_exn (py_gt0 online_cpus) (\<lambda>positive.
               if positive then
                 (case online_cpus of
                    JInt n \<Rightarrow>
                      bind_exn (int_truediv cpu_delta system_cpu_delta) (\<lambda>ratio.
                      bind_exn (fmul_int ratio n) (\<lambda>scaled.
                        fmul_int scaled 100))
                  | _ \<Rightarrow> Inl TypeError)
               else Inr (Finite 0))
           else Inr (Finite 0))))))))))
       else Inr (Finite 0)))"

text \<open>
  Memory usage, limit and percentage of a snapshot:
  \<^verbatim>\<open>mem_usage = stats.get("memory_stats", {}).get("usage", 0)\<close>,
  \<^verbatim>\<open>mem_limit = stats.get("memory_stats", {}).get("limit", 1)\<close>,
  \<^verbatim>\<open>mem_percent = (mem_usage / mem_limit) * 100 if mem_limit else 0\<close>.
\<close>

definition mem_of :: "json \<Rightarrow> exn + json \<times> json \<times> pyfloat" where
  "mem_of stats =
     bind_exn (dict_get stats ''memory_stats'' (JDict [])) (\<lambda>ms.
     bind_exn (dict_get ms ''usage'' (JInt 0)) (\<lambda>mem_usage.
     bind_exn (dict_get stats ''memory_stats'' (JDict [])) (\<lambda>ms'.
     bind_exn (dict_get ms' ''limit'' (JInt 1)) (\<lambda>mem_limit.
     bind_exn (if truthy mem_limit
               then bind_exn (py_truediv mem_usage mem_limit) (\<lambda>ratio. fmul_int ratio 100)
               else Inr (Finite 0)) (\<lambda>mem_percent.
       Inr (mem_usage, mem_limit, mem_percent))))))"

text \<open>
  Resource usage of one container: the live counters are asked for only when the status is
  \<^verbatim>\<open>'running'\<close>. The result is the calls made and (cpu_percent, mem_percent, mem_usage,
  mem_limit).
\<close>

definition usage_of ::
  "container \<Rightarrow> monitor_event list \<times> (exn + pyfloat \<times> pyfloat \<times> json \<times> json)" where
  "usage_of c =
     (if c_status c = ''running'' then
        ([Called_stats (c_id c)],
         bind_exn (c_stats c) (\<lambda>stats.
         bind_exn (cpu_percent_of stats) (\<lambda>cpu_percent.
         bind_exn (mem_of stats) (\<lambda>(mem_usage, mem_limit, mem_percent).
           Inr (cpu_percent, mem_percent, mem_usage, mem_limit)))))
      else ([], Inr (Finite 0, Finite 0, JInt 0, JInt 0)))"

text \<open>
  Published ports. One binding: \<^verbatim>\<open>int(port_binding[0]["HostPort"])\<close>, rendered as
  \<^verbatim>\<open>f"{port_name}->{host_port}"\<close>; a binding that raises is skipped.
\<close>

definition host_port_entry :: "string \<Rightarrow> json \<Rightarrow> exn + string" where
  "host_port_entry port_name port_binding =
     bind_exn (index0 port_binding) (\<lambda>first.
     bind_exn (subscript first ''HostPort'') (\<lambda>hp.
     bind_exn (py_int hp) (\<lambda>host_port.
       Inr (port_name @ ''->'' @ str_int host_port))))"

fun port_entries :: "(string \<times> json) list \<Rightarrow> string list" where
  "port_entries [] = []"
| "port_entries ((port_name, port_binding) # rest) =
     (if truthy port_binding then
        (case host_port_entry port_name port_binding of
           Inl e \<Rightarrow> port_entries rest
         | Inr entry \<Rightarrow> entry # port_entries rest)
      else port_entries rest)"

definition port_list :: "json \<Rightarrow> exn + string list" where
  "port_list attrs =
     bind_exn (dict_get attrs ''NetworkSettings'' (JDict [])) (\<lambda>ns.
     bind_exn (dict_get ns ''Ports'' JNull) (\<lambda>p.
       if truthy p then
         bind_exn (subscript attrs ''NetworkSettings'') (\<lambda>ns'.
         bind_exn (subscript ns' ''Ports'') (\<lambda>p'.
         bind_exn (dict_items p') (\<lambda>items. Inr (port_entries items))))
       else Inr [''N/A'']))"

text \<open>
  The body of the \<^verbatim>\<open>try\<close> block for one container: the calls made, and the row or
  the exception.
\<close>

definition container_row :: "container \<Rightarrow> monitor_event list \<times> (exn + row)" where
  "container_row c =
     (fst (usage_of c),
      bind_exn (snd (usage_of c)) (\<lambda>(cpu_percent, mem_percent, mem_usage, mem_limit).
      bind_exn (port_list (c_attrs c)) (\<lambda>ps.
      bind_exn (py_round2 cpu_percent) (\<lambda>cpu_rounded.
      bind_exn (py_round2 mem_percent) (\<lambda>mem_rounded.
        Inr \<lparr> container_id = take 12 (c_id c),
              container_name = c_name c,
              row_status = c_status c,
              container_cpu_pct = cpu_rounded,
              container_mem_pct = mem_rounded,
              container_mem_usage_bytes = mem_usage,
              container_mem_limit_bytes = mem_limit,
              ports = join '', '' ps \<rparr>)))))"

text \<open>
  The loop over the listed containers: an exception of one container is logged and the
  loop goes on with the next one.
\<close>

fun collect_rows :: "container list \<Rightarrow> monitor_event list \<times> row list" where
  "collect_rows [] = ([], [])"
| "collect_rows (c # cs) =
     (case snd (container_row c) of
        Inl e \<Rightarrow>
          (fst (container_row c) @ Error_collecting_stats (take 12 (c_id c)) e
             # fst (collect_rows cs),
           snd (collect_rows cs))
      | Inr r \<Rightarrow>
          (fst (container_row c) @ fst (collect_rows cs), r # snd (collect_rows cs)))"

definition collect_container_stats ::
  "client option \<Rightarrow> bool \<Rightarrow> monitor_event list \<times> (exn + row list)" where
  "collect_container_stats docker_client all_containers =
     (case docker_client of
        None \<Rightarrow> ([Info_client_not_initialized], Inr [])
      | Some cl \<Rightarrow>
          (case containers_list cl all_containers of
             Inl e \<Rightarrow> ([Called_containers_list all_containers], Inl e)
           | Inr containers \<Rightarrow>
               (Called_containers_list all_containers # fst (collect_rows containers),
                Inr (snd (collect_rows containers)))))"

section \<open>The provisioning script \<^verbatim>\<open>create_container.py\<close>\<close>

subsection \<open>The plan catalog\<close>

record plan =
  cpu :: string
  mem :: string
  dockerfile :: string

definition PLANS :: "(string \<times> plan) list" where
  "PLANS =
     [(''vStart'', \<lparr>cpu = ''1'', mem = ''4g'', dockerfile = ''Dockerfile.vStart''\<rparr>),
      (''vProfessional'', \<lparr>cpu = ''2'', mem = ''8g'', dockerfile = ''Dockerfile.vProfessional''\<rparr>),
      (''vPopular'', \<lparr>cpu = ''4'', mem = ''16g'', dockerfile = ''Dockerfile.vPopular''\<rparr>),
      (''vStable'', \<lparr>cpu = ''8'', mem = ''32g'', dockerfile = ''Dockerfile.vStable''\<rparr>)]"

text \<open>\<^verbatim>\<open>PLANS[plan]\<close>.\<close>

definition plan_lookup :: "string \<Rightarrow> exn + plan" where
  "plan_lookup p = (case map_of PLANS p of None \<Rightarrow> Inl (KeyError p) | Some v \<Rightarrow> Inr v)"

subsection \<open>The host: shell, file system, random numbers\<close>

text \<open>
  What a finished process gives back (\<^verbatim>\<open>subprocess.CompletedProcess\<close>), and the
  observable actions of the script in the order they happen.
\<close>

record proc =
  returncode :: int
  stdout :: string
  stderr :: string

record summary =
  sum_container_id :: string
  sum_domain :: string
  sum_plan :: string
  sum_cname :: string
  sum_network :: string
  sum_username :: string
  sum_password :: string
  sum_db_admin_user :: string
  sum_db_admin_pass :: string
  sum_db_user :: string
  sum_db_pass :: string
  sum_web_dir :: string
  sum_http_port :: int
  sum_https_port :: int
  sum_ssh_port :: int
  sum_mysql_port :: int

datatype event =
    Sh string
  | Mkdir string
  | Print string
  | Print_exn string exn
  | Print_summary summary
  | Prompt string

text \<open>
  The host is a parameter: a state \<open>'w\<close> with the effect of a shell command line, of
  \<^verbatim>\<open>os.makedirs(path, exist_ok=True)\<close> and of \<^verbatim>\<open>random.randint\<close> on it, and the
  directory of the script.
\<close>

record 'w env =
  shell :: "string \<Rightarrow> 'w \<Rightarrow> proc \<times> 'w"
  makedirs :: "string \<Rightarrow> 'w \<Rightarrow> (exn + unit) \<times> 'w"
  randint :: "int \<Rightarrow> int \<Rightarrow> 'w \<Rightarrow> int \<times> 'w"
  script_dir :: string

text \<open>
  An action takes the host state and the events so far, and returns a value or an
  exception together with the new state and the extended events.
\<close>

type_synonym ('a, 'w) act = "'w \<times> event list \<Rightarrow> (exn + 'a) \<times> ('w \<times> event list)"

definition return_act :: "'a \<Rightarrow> ('a, 'w) act" where
  "return_act a = (\<lambda>s. (Inr a, s))"

definition lift_exn :: "exn + 'a \<Rightarrow> ('a, 'w) act" where
  "lift_exn r = (\<lambda>s. (r, s))"

definition bind_act :: "('a, 'w) act \<Rightarrow> ('a \<Rightarrow> ('b, 'w) act) \<Rightarrow> ('b, 'w) act" where
  "bind_act m f = (\<lambda>s. case m s of (Inl e, s') \<Rightarrow> (Inl e, s') | (Inr a, s') \<Rightarrow> f a s')"

definition emit :: "event \<Rightarrow> (unit, 'w) act" where
  "emit ev = (\<lambda>(w, tr). (Inr (), (w, tr @ [ev])))"

text \<open>\<^verbatim>\<open>try: ... except Exception as e: print(f"{msg}{e}"); raise\<close>\<close>

definition reraise_printing :: "string \<Rightarrow> ('a, 'w) act \<Rightarrow> ('a, 'w) act" where
  "reraise_printing msg m =
     (\<lambda>s. case m s of
             (Inl e, (w, tr)) \<Rightarrow> (Inl e, (w, tr @ [Print_exn msg e]))
           | (Inr a, s') \<Rightarrow> (Inr a, s'))"

text \<open>\<^verbatim>\<open>subprocess.run(command, shell=True, ...)\<close> without \<^verbatim>\<open>check\<close>.\<close>

definition subprocess_run :: "'w env \<Rightarrow> string \<Rightarrow> (proc, 'w) act" where
  "subprocess_run E command =
     (\<lambda>(w, tr). case shell E command w of (result, w') \<Rightarrow> (Inr result, (w', tr @ [Sh command])))"

definition os_makedirs :: "'w env \<Rightarrow> string \<Rightarrow> (unit, 'w) act" where
  "os_makedirs E path =
     (\<lambda>(w, tr). case makedirs E path w of (r, w') \<Rightarrow> (r, (w', tr @ [Mkdir path])))"

text \<open>\<^verbatim>\<open>random_port(start, end)\<close>\<close>

definition random_port :: "'w env \<Rightarrow> int \<Rightarrow> int \<Rightarrow> (int, 'w) act" where
  "random_port E start stop =
     (\<lambda>(w, tr). case randint E start stop w of (n, w') \<Rightarrow> (Inr n, (w', tr)))"

text \<open>\<^verbatim>\<open>input(prompt).strip()\<close>, for the line the operator types.\<close>

definition input_strip :: "string \<Rightarrow> string \<Rightarrow> (string, 'w) act" where
  "input_strip prompt line = bind_act (emit (Prompt prompt)) (\<lambda>_. return_act (strip line))"

subsection \<open>The command executor\<close>

text \<open>
  The names the module \<^verbatim>\<open>subprocess\<close> exports (its \<^verbatim>\<open>__all__\<close> on POSIX). A name
  outside this list is taken to be absent, so that looking it up raises
  \<^verbatim>\<open>AttributeError\<close>; this is what happens for the one name the script looks up,
  \<^verbatim>\<open>CalledCalledProcessError\<close>.
\<close>

definition subprocess_names :: "string list" where
  "subprocess_names =
     [''Popen'', ''PIPE'', ''STDOUT'', ''call'', ''check_call'', ''getstatusoutput'',
      ''getoutput'', ''check_output'', ''run'', ''CalledProcessError'', ''DEVNULL'',
      ''SubprocessError'', ''TimeoutExpired'', ''CompletedProcess'']"

definition subprocess_getattr :: "string \<Rightarrow> exn + string" where
  "subprocess_getattr name =
     (if name \<in> set subprocess_names then Inr name
      else Inl (AttributeError ''subprocess'' name))"

text \<open>Does an \<^verbatim>\<open>except cls\<close> clause catch the exception?\<close>

fun caught_by :: "exn \<Rightarrow> string \<Rightarrow> bool" where
  "caught_by (CalledProcessError c rc out err) cls =
     (cls = ''CalledProcessError'' \<or> cls = ''SubprocessError'')"
| "caught_by e cls = False"

text \<open>
  \<^verbatim>\<open>run_command\<close>: the command runs with \<^verbatim>\<open>check=True\<close>, so a non-zero exit status
  raises \<^verbatim>\<open>CalledProcessError\<close> inside the \<^verbatim>\<open>try\<close>. The handler is
  \<^verbatim>\<open>except subprocess.CalledCalledProcessError as e\<close>: its class expression is evaluated
  when an exception arrives, and an exception of that evaluation replaces the one in
  flight.
\<close>

definition run_command :: "'w env \<Rightarrow> string \<Rightarrow> (string, 'w) act" where
  "run_command E command =
     (\<lambda>s. case subprocess_run E command s of
        (Inl e, s') \<Rightarrow> (Inl e, s')
      | (Inr result, (w, tr)) \<Rightarrow>
          if returncode result = 0 then (Inr (strip (stdout result)), (w, tr))
          else
            (let e = CalledProcessError command (returncode result) (stdout result) (stderr result)
             in case subprocess_getattr ''CalledCalledProcessError'' of
                  Inl lookup_error \<Rightarrow> (Inl lookup_error, (w, tr))
                | Inr cls \<Rightarrow>
                    if caught_by e cls then
                      (Inl e, (w, tr @ [Print (''Error occurred while running command: '' @ command),
                                        Print (''Exit Code: '' @ str_int (returncode result)),
                                        Print (''Error Output: '' @ stderr result)]))
                    else (Inl e, (w, tr))))"

subsection \<open>The image builder\<close>

text \<open>\<^verbatim>\<open>str.lower()\<close> on ASCII letters, and \<^verbatim>\<open>os.path.join\<close> of two POSIX paths.\<close>

definition lower_chr :: "char \<Rightarrow> char" where
  "lower_chr c =
     (case map_of (zip ''ABCDEFGHIJKLMNOPQRSTUVWXYZ'' ''abcdefghijklmnopqrstuvwxyz'') c of
        None \<Rightarrow> c
      | Some l \<Rightarrow> l)"

definition lower :: "string \<Rightarrow> string" where
  "lower s = map lower_chr s"

definition path_join :: "string \<Rightarrow> string \<Rightarrow> string" where
  "path_join a b =
     (if b \<noteq> [] \<and> hd b = CHR ''/'' then b
      else if a = [] then b
      else if last a = CHR ''/'' then a @ b
      else a @ ''/'' @ b)"

definition DOCKERFILES_DIR :: "'w env \<Rightarrow> string" where
  "DOCKERFILES_DIR E = path_join (script_dir E) ''../Dockerfiles''"

definition build_cmd :: "'w env \<Rightarrow> string \<Rightarrow> string \<Rightarrow> string" where
  "build_cmd E image_tag dockerfile_path =
     ''docker build -t '' @ image_tag @ '' -f '' @ dockerfile_path @ '' '' @ DOCKERFILES_DIR E"

definition build_image :: "'w env \<Rightarrow> string \<Rightarrow> (string, 'w) act" where
  "build_image E plan_name =
     (let image_tag = ''hosting:'' @ lower plan_name in
      bind_act (lift_exn (plan_lookup plan_name)) (\<lambda>p.
        let dockerfile_path = path_join (DOCKERFILES_DIR E) (dockerfile p) in
        bind_act (emit (Print (''Building Docker image '' @ image_tag @ '' from ''
                                 @ dockerfile_path @ '' ...''))) (\<lambda>_.
        bind_act (run_command E (build_cmd E image_tag dockerfile_path)) (\<lambda>_.
          return_act image_tag))))"

subsection \<open>The network provisioner\<close>

text \<open>
  \<^verbatim>\<open>s.split(sep)\<close> and \<^verbatim>\<open>s.rsplit(sep, 1)\<close> for a separator of one character, and
  \<^verbatim>\<open>xs[0]\<close> on a list.
\<close>

fun split_chr :: "char \<Rightarrow> string \<Rightarrow> string list" where
  "split_chr sep [] = [[]]"
| "split_chr sep (c # cs) =
     (if c = sep then [] # split_chr sep cs
      else (case split_chr sep cs of [] \<Rightarrow> [[c]] | piece # pieces \<Rightarrow> (c # piece) # pieces))"

definition rsplit1 :: "char \<Rightarrow> string \<Rightarrow> string list" where
  "rsplit1 sep s =
     (if sep \<in> set s
      then [rev (tl (dropWhile (\<lambda>c. c \<noteq> sep) (rev s))), rev (takeWhile (\<lambda>c. c \<noteq> sep) (rev s))]
      else [s])"

fun item0 :: "'a list \<Rightarrow> exn + 'a" where
  "item0 [] = Inl IndexError"
| "item0 (piece # pieces) = Inr piece"

text \<open>
  The gateway address of a subnet:
  \<^verbatim>\<open>base_ip = subnet_cidr.split("/")[0].rsplit(".", 1)[0]\<close> and
  \<^verbatim>\<open>gateway_ip = f"{base_ip}.1/28"\<close>.
\<close>

definition gateway_ip :: "string \<Rightarrow> exn + string" where
  "gateway_ip subnet_cidr =
     bind_exn (item0 (split_chr (CHR ''/'') subnet_cidr)) (\<lambda>address.
     bind_exn (item0 (rsplit1 (CHR ''.'') address)) (\<lambda>base_ip.
       Inr (base_ip @ ''.1/28'')))"

definition sq :: string where
  "sq = [CHR 0x27]"

definition dq :: string where
  "dq = [CHR 0x22]"

definition interface_check_cmd :: "string \<Rightarrow> string" where
  "interface_check_cmd interface_name = ''ip addr show '' @ interface_name"

definition link_add_cmd :: "string \<Rightarrow> string" where
  "link_add_cmd interface_name = ''sudo ip link add '' @ interface_name @ '' type dummy''"

definition addr_add_cmd :: "string \<Rightarrow> string \<Rightarrow> string" where
  "addr_add_cmd gateway interface_name = ''sudo ip addr add '' @ gateway @ '' dev '' @ interface_name"

definition link_up_cmd :: "string \<Rightarrow> string" where
  "link_up_cmd interface_name = ''sudo ip link set '' @ interface_name @ '' up''"

definition create_host_interface :: "'w env \<Rightarrow> string \<Rightarrow> string \<Rightarrow> (unit, 'w) act" where
  "create_host_interface E subnet_cidr interface_name =
     reraise_printing ''Error in creating host interface: ''
       (bind_act (lift_exn (gateway_ip subnet_cidr)) (\<lambda>gateway.
        bind_act (subprocess_run E (interface_check_cmd interface_name)) (\<lambda>result.
          if returncode result \<noteq> 0 then
            bind_act (emit (Print (''Creating host interface '' @ interface_name @ '' with IP ''
                                     @ gateway @ '' ...''))) (\<lambda>_.
            bind_act (run_command E (link_add_cmd interface_name)) (\<lambda>_.
            bind_act (run_command E (addr_add_cmd gateway interface_name)) (\<lambda>_.
            bind_act (run_command E (link_up_cmd interface_name)) (\<lambda>_.
              return_act ()))))
          else emit (Print (''Interface '' @ interface_name @ '' already exists.'')))))"

definition network_query_cmd :: "string \<Rightarrow> string" where
  "network_query_cmd network_name = ''docker network ls --filter name=^'' @ network_name @ ''$ -q''"

definition network_create_cmd :: "string \<Rightarrow> string" where
  "network_create_cmd network_name = ''docker network create --driver=bridge '' @ network_name"

definition network_create_subnet_cmd :: "string \<Rightarrow> string \<Rightarrow> string" where
  "network_create_subnet_cmd subnet_cidr network_name =
     ''docker network create --driver=bridge --subnet='' @ subnet_cidr @ '' '' @ network_name"

text \<open>
  \<^verbatim>\<open>create_docker_network(network_name, subnet_cidr=None)\<close>: the subnet is \<open>None\<close> or a
  string, and \<^verbatim>\<open>if subnet_cidr\<close> holds for a non-empty string.
\<close>

definition create_docker_network :: "'w env \<Rightarrow> string \<Rightarrow> string option \<Rightarrow> (unit, 'w) act" where
  "create_docker_network E network_name subnet_cidr =
     reraise_printing ''Error in creating Docker network: ''
       (bind_act (subprocess_run E (network_query_cmd network_name)) (\<lambda>result.
          let existing = strip (stdout result) in
          if existing = [] then
            bind_act (emit (Print (''Creating Docker network '' @ sq @ network_name @ sq @ '' ...''))) (\<lambda>_.
              (case subnet_cidr of
                 None \<Rightarrow>
                   bind_act (run_command E (network_create_cmd network_name)) (\<lambda>_. return_act ())
               | Some subnet \<Rightarrow>
                   if subnet = [] then
                     bind_act (run_command E (network_create_cmd network_name)) (\<lambda>_. return_act ())
                   else
                     bind_act (create_host_interface E subnet ''docknet0'') (\<lambda>_.
                     bind_act (run_command E (network_create_subnet_cmd subnet network_name)) (\<lambda>_.
                       return_act ()))))
          else emit (Print (''Docker network '' @ network_name @ '' already exists.''))))"

subsection \<open>The container launcher\<close>

definition remove_existing_container :: "'w env \<Rightarrow> string \<Rightarrow> (unit, 'w) act" where
  "remove_existing_container E name =
     reraise_printing ''Error in removing existing container: ''
       (bind_act (subprocess_run E (''docker ps -a --filter name=^'' @ name @ ''$ -q'')) (\<lambda>result.
          let existing = strip (stdout result) in
          if existing \<noteq> [] then
            bind_act (emit (Print (''Removing existing container '' @ sq @ name @ sq @ '' ...''))) (\<lambda>_.
            bind_act (run_command E (''docker rm -f '' @ name)) (\<lambda>_. return_act ()))
          else emit (Print (''No existing container named '' @ name @ '' found.''))))"

text \<open>The lines the operator types at the eleven prompts, in order.\<close>

record inputs =
  in_plan :: string
  in_domain :: string
  in_cname :: string
  in_username :: string
  in_password :: string
  in_db_admin_user :: string
  in_db_admin_pass :: string
  in_db_user :: string
  in_db_pass :: string
  in_subnet :: string
  in_network_name :: string

definition web_dir_of :: "string \<Rightarrow> string" where
  "web_dir_of cname = ''/srv/'' @ cname @ ''/www''"

text \<open>
  The command line of \<^verbatim>\<open>docker run\<close>. The record \<open>v\<close> holds the answers of
  the operator after \<^verbatim>\<open>strip()\<close>.
\<close>

definition docker_run_cmd ::
  "inputs \<Rightarrow> plan \<Rightarrow> string \<Rightarrow> int \<Rightarrow> int \<Rightarrow> int \<Rightarrow> int \<Rightarrow> string \<Rightarrow> string" where
  "docker_run_cmd v p web_dir http_port https_port ssh_port mysql_port image_tag =
     ''docker run -d ''
     @ ''--name '' @ in_cname v @ '' ''
     @ ''--hostname '' @ in_domain v @ '' ''
     @ ''--cpus='' @ dq @ cpu p @ dq @ '' ''
     @ ''--memory='' @ dq @ mem p @ dq @ '' ''
     @ ''--net '' @ in_network_name v @ '' ''
     @ ''-v '' @ web_dir @ '':/home/'' @ in_username v @ ''/www ''
     @ ''-e USERNAME='' @ in_username v @ '' ''
     @ ''-e PASSWORD='' @ in_password v @ '' ''
     @ ''-e DB_ADMIN_USER='' @ in_db_admin_user v @ '' ''
     @ ''-e DB_ADMIN_PASS='' @ in_db_admin_pass v @ '' ''
     @ ''-e DB_USER='' @ in_db_user v @ '' ''
     @ ''-e DB_PASS='' @ in_db_pass v @ '' ''
     @ ''-p '' @ str_int http_port @ '':80 ''
     @ ''-p '' @ str_int https_port @ '':443 ''
     @ ''-p '' @ str_int ssh_port @ '':22 ''
     @ ''-p '' @ str_int mysql_port @ '':3306 ''
     @ image_tag"

text \<open>
  The steps of \<^verbatim>\<open>create_container\<close> after the plan check, in the order of the source:
  image, web directory, network, removal of a container of the same name, ports, run,
  summary.
\<close>

definition launch :: "'w env \<Rightarrow> inputs \<Rightarrow> (unit, 'w) act" where
  "launch E v =
     bind_act (build_image E (in_plan v)) (\<lambda>image_tag.
     let web_dir = web_dir_of (in_cname v) in
     bind_act (os_makedirs E web_dir) (\<lambda>_.
     bind_act (create_docker_network E (in_network_name v)
                 (if in_subnet v \<noteq> [] then Some (in_subnet v) else None)) (\<lambda>_.
     bind_act (remove_existing_container E (in_cname v)) (\<lambda>_.
     bind_act (random_port E 20000 30000) (\<lambda>http_port.
     bind_act (random_port E 30001 40000) (\<lambda>https_port.
     bind_act (random_port E 40001 50000) (\<lambda>ssh_port.
     bind_act (random_port E 50001 60000) (\<lambda>mysql_port.
     bind_act (emit (Print (CHR 0x0A # ''Running container '' @ in_cname v @ '' for domain ''
                              @ in_domain v @ '' ...''))) (\<lambda>_.
     bind_act (lift_exn (plan_lookup (in_plan v))) (\<lambda>p.
     bind_act (run_command E
                 (docker_run_cmd v p web_dir http_port https_port ssh_port mysql_port
                    image_tag)) (\<lambda>container_id.
       emit (Print_summary
               \<lparr> sum_container_id = container_id, sum_domain = in_domain v,
                 sum_plan = in_plan v, sum_cname = in_cname v,
                 sum_network = in_network_name v, sum_username = in_username v,
                 sum_password = in_password v, sum_db_admin_user = in_db_admin_user v,
                 sum_db_admin_pass = in_db_admin_pass v, sum_db_user = in_db_user v,
                 sum_db_pass = in_db_pass v, sum_web_dir = web_dir,
                 sum_http_port = http_port, sum_https_port = https_port,
                 sum_ssh_port = ssh_port, sum_mysql_port = mysql_port \<rparr>))))))))))))"

text \<open>The body of the \<^verbatim>\<open>try\<close> block of \<^verbatim>\<open>create_container\<close>.\<close>

definition create_container_body :: "'w env \<Rightarrow> inputs \<Rightarrow> (unit, 'w) act" where
  "create_container_body E inp =
     bind_act (emit (Print ''=== Hosting Container Creation ==='')) (\<lambda>_.
     bind_act (input_strip ''Plan (vStart/vProfessional/vPopular/vStable): '' (in_plan inp)) (\<lambda>plan_name.
     bind_act (input_strip ''Client Domain Name: '' (in_domain inp)) (\<lambda>domain.
     bind_act (input_strip ''Container Name (no spaces): '' (in_cname inp)) (\<lambda>cname.
     bind_act (input_strip ''Container Username: '' (in_username inp)) (\<lambda>username.
     bind_act (input_strip ''Container Password: '' (in_password inp)) (\<lambda>password.
     bind_act (input_strip ''Database Admin Username: '' (in_db_admin_user inp)) (\<lambda>db_admin_user.
     bind_act (input_strip ''Database Admin Password: '' (in_db_admin_pass inp)) (\<lambda>db_admin_pass.
     bind_act (input_strip ''Database Username: '' (in_db_user inp)) (\<lambda>db_user.
     bind_act (input_strip ''Database Password: '' (in_db_pass inp)) (\<lambda>db_pass.
     bind_act (input_strip
                 ''Optional: Docker subnet for containers (e.g., 45.59.132.208/28), leave empty for default bridge: ''
                 (in_subnet inp)) (\<lambda>subnet.
     bind_act (input_strip ''Docker network name (e.g., hosting_net): '' (in_network_name inp)) (\<lambda>network_name.
       if map_of PLANS plan_name = None then
         emit (Print ''Invalid plan. Please choose from vStart, vProfessional, vPopular, or vStable.'')
       else
         launch E \<lparr>in_plan = plan_name, in_domain = domain, in_cname = cname,
                   in_username = username, in_password = password,
                   in_db_admin_user = db_admin_user, in_db_admin_pass = db_admin_pass,
                   in_db_user = db_user, in_db_pass = db_pass, in_subnet = subnet,
                   in_network_name = network_name\<rparr>))))))))))))"

text \<open>
  \<^verbatim>\<open>create_container()\<close>: the handler of the outer \<^verbatim>\<open>try\<close> prints the exception and
  a hint, and the function returns. The result is the final host state and the events.
\<close>

definition create_container :: "'w env \<Rightarrow> inputs \<Rightarrow> 'w \<Rightarrow> 'w \<times> event list" where
  "create_container E inp w =
     (case create_container_body E inp (w, []) of
        (Inl e, (w', tr)) \<Rightarrow>
          (w', tr @ [Print_exn ''Error: '' e,
                     Print ''Please review the error message above to understand the issue and try again.''])
      | (Inr u, s') \<Rightarrow> s')"

text \<open>The commands run and directories made, without the console output.\<close>

fun is_effect :: "event \<Rightarrow> bool" where
  "is_effect (Sh c) = True"
| "is_effect (Mkdir d) = True"
| "is_effect ev = False"

definition effects :: "event list \<Rightarrow> event list" where
  "effects tr = filter is_effect tr"


text \<open>
  An action keeps the events it was given and adds its own after them.
\<close>

definition appends :: "('a, 'w) act \<Rightarrow> bool" where
  "appends m = (\<forall>w tr. \<exists>r w' t. m (w, tr) = (r, (w', tr @ t)))"

section \<open>The formulas of the specification\<close>

text \<open>
  The specification's words for the two percentages, to be compared with what the source
  computes. The formulas are read as Python reads them, in float arithmetic from left to
  right. The number of online CPUs falls back to the length of the per-core usage list and
  then to 1 when it is not reported (a reported 0 counts as not reported).
\<close>

definition spec_online_cpu_count :: "nat option \<Rightarrow> nat \<Rightarrow> int" where
  "spec_online_cpu_count reported percore_len =
     (case reported of
        Some k \<Rightarrow> if 0 < k then int k else if 0 < percore_len then int percore_len else 1
      | None \<Rightarrow> if 0 < percore_len then int percore_len else 1)"

definition spec_cpu_percent :: "int \<Rightarrow> int \<Rightarrow> int \<Rightarrow> exn + pyfloat" where
  "spec_cpu_percent cpu_usage_delta system_cpu_delta online_count =
     (if system_cpu_delta \<le> 0 then Inr (Finite 0)
      else
        bind_exn (int_truediv cpu_usage_delta system_cpu_delta) (\<lambda>ratio.
        bind_exn (fmul_int ratio online_count) (\<lambda>scaled.
          fmul_int scaled 100)))"

definition spec_mem_percent :: "int \<Rightarrow> int \<Rightarrow> exn + pyfloat" where
  "spec_mem_percent memory_usage_bytes memory_limit_bytes =
     (if memory_limit_bytes = 0 then Inr (Finite 0)
      else
        bind_exn (int_truediv memory_usage_bytes memory_limit_bytes) (\<lambda>ratio.
          fmul_int ratio 100))"

section \<open>Example data\<close>

text \<open>
  A snapshot pair with \<open>cpu_usage_delta = 200\<close>, \<open>system_cpu_delta = 1000\<close> and four
  online CPUs, using 512000000 of 1024000000 bytes.
\<close>

definition example_cpu_stats :: "(string \<times> json) list" where
  "example_cpu_stats =
     [(''cpu_usage'', JDict [(''total_usage'', JInt 1200)]),
      (''system_cpu_usage'', JInt 6000),
      (''online_cpus'', JInt 4)]"

definition example_precpu_stats :: "(string \<times> json) list" where
  "example_precpu_stats =
     [(''cpu_usage'', JDict [(''total_usage'', JInt 1000)]),
      (''system_cpu_usage'', JInt 5000)]"

definition example_memory_stats :: "(string \<times> json) list" where
  "example_memory_stats = [(''usage'', JInt 512000000), (''limit'', JInt 1024000000)]"

definition example_stats :: json where
  "example_stats =
     JDict [(''cpu_stats'', JDict example_cpu_stats),
            (''precpu_stats'', JDict example_precpu_stats),
            (''memory_stats'', JDict example_memory_stats)]"


definition example_attrs :: json where
  "example_attrs =
     JDict [(''NetworkSettings'',
             JDict [(''Ports'',
                     JDict [(''80/tcp'', JList [JDict [(''HostIp'', JStr ''0.0.0.0''),
                                                        (''HostPort'', JStr ''20080'')]]),
                            (''443/tcp'', JNull)])])]"

definition example_running :: container where
  "example_running =
     \<lparr>c_id = ''0123456789abcdef0123'', c_name = ''site1'', c_status = ''running'',
      c_attrs = example_attrs, c_stats = Inr example_stats\<rparr>"


text \<open>A stopped container: it publishes no port, and asking it for live counters raises.\<close>

definition example_exited :: container where
  "example_exited =
     \<lparr>c_id = ''fedcba9876543210fedc'', c_name = ''site2'', c_status = ''exited'',
      c_attrs = JDict [(''NetworkSettings'', JDict [(''Ports'', JDict [])])],
      c_stats = Inl (DockerException ''container is not running'')\<rparr>"

text \<open>
  A running container that uses 2675 of 100000 bytes, and one that reports a usage of
  \<open>2^53 + 1\<close> bytes and no limit; neither reports CPU counters.
\<close>

definition example_odd_ratio :: container where
  "example_odd_ratio =
     \<lparr>c_id = ''aaaabbbbccccdddd'', c_name = ''site3'', c_status = ''running'',
      c_attrs = example_attrs,
      c_stats = Inr (JDict [(''memory_stats'',
                             JDict [(''usage'', JInt 2675), (''limit'', JInt 100000)])])\<rparr>"



text \<open>
  A running container on one CPU whose counters advanced by 1 of 20000 ticks; it reports no
  memory statistics.
\<close>

definition example_small_cpu :: container where
  "example_small_cpu =
     \<lparr>c_id = ''2222333344445555'', c_name = ''site5'', c_status = ''running'',
      c_attrs = example_attrs,
      c_stats = Inr (JDict [(''cpu_stats'',
                             JDict [(''cpu_usage'', JDict [(''total_usage'', JInt 1001)]),
                                    (''system_cpu_usage'', JInt 25000),
                                    (''online_cpus'', JInt 1)]),
                            (''precpu_stats'',
                             JDict [(''cpu_usage'', JDict [(''total_usage'', JInt 1000)]),
                                    (''system_cpu_usage'', JInt 5000)])])\<rparr>"

text \<open>A client that lists the given containers, whatever the flag is.\<close>

definition client_listing :: "container list \<Rightarrow> client" where
  "client_listing cs = \<lparr>containers_list = (\<lambda>all_containers. Inr cs)\<rparr>"

text \<open>
  A host that remembers the commands it has run: a network is listed once a
  \<^verbatim>\<open>docker network create\<close> has run, and the interface is shown once an
  \<^verbatim>\<open>ip link add\<close> has run. Every command succeeds.
\<close>

definition history_shell :: "string \<Rightarrow> string list \<Rightarrow> proc \<times> string list" where
  "history_shell command hist =
     (if prefix ''docker network ls'' command then
        \<lparr>returncode = 0,
         stdout = (if list_ex (prefix ''docker network create'') hist
                   then ''3f2a9c1d0b7e'' @ [CHR 0x0A] else []),
         stderr = []\<rparr>
      else if prefix ''ip addr show'' command then
        \<lparr>returncode = (if list_ex (prefix ''sudo ip link add'') hist then 0 else 1),
         stdout = [], stderr = []\<rparr>
      else if prefix ''docker run'' command then
        \<lparr>returncode = 0, stdout = ''9b1c0de5f00d'' @ [CHR 0x0A], stderr = []\<rparr>
      else \<lparr>returncode = 0, stdout = [], stderr = []\<rparr>,
      hist @ [command])"

definition history_host :: "string list env" where
  "history_host =
     \<lparr>shell = history_shell,
      makedirs = (\<lambda>path hist. (Inr (), hist)),
      randint = (\<lambda>lo hi hist. (lo, hist)),
      script_dir = ''/opt/hosting/scripts''\<rparr>"

text \<open>
  The same host with an address pool that is already taken: every
  \<^verbatim>\<open>docker network create\<close> exits with status 1, and no network is ever listed.
\<close>

definition overlap_shell :: "string \<Rightarrow> string list \<Rightarrow> proc \<times> string list" where
  "overlap_shell command hist =
     (if prefix ''docker network create'' command then
        \<lparr>returncode = 1, stdout = [],
         stderr = ''Error response from daemon: Pool overlaps with other one on this address space''\<rparr>
      else if prefix ''docker network ls'' command then
        \<lparr>returncode = 0, stdout = [], stderr = []\<rparr>
      else fst (history_shell command hist),
      hist @ [command])"

definition overlap_host :: "string list env" where
  "overlap_host =
     \<lparr>shell = overlap_shell,
      makedirs = (\<lambda>path hist. (Inr (), hist)),
      randint = (\<lambda>lo hi hist. (lo, hist)),
      script_dir = ''/opt/hosting/scripts''\<rparr>"

definition example_inputs :: inputs where
  "example_inputs =
     \<lparr>in_plan = ''vStart'', in_domain = ''example.org'', in_cname = ''site1'',
      in_username = ''alice'', in_password = ''pw'', in_db_admin_user = ''root'',
      in_db_admin_pass = ''rootpw'', in_db_user = ''dbu'', in_db_pass = ''dbp'',
      in_subnet = ''45.59.132.208/28'', in_network_name = ''hosting_net''\<rparr>"

section \<open>Properties of the provisioning script\<close>

subsection \<open>The command executor and the gateway address\<close>

lemma run_command_result:
  "run_command E command (w, tr) =
     (case shell E command w of
        (result, w') \<Rightarrow>
          (if returncode result = 0 then Inr (strip (stdout result))
           else Inl (AttributeError ''subprocess'' ''CalledCalledProcessError''),
           (w', tr @ [Sh command])))"
  by (simp add: run_command_def subprocess_run_def subprocess_getattr_def subprocess_names_def
           split: prod.splits)

text \<open>
  Claim C1 says that a command with a non-zero exit status makes \<^verbatim>\<open>run_command\<close> fail
  with an error that carries the command, the exit code and the captured stderr, after
  reporting that stderr. The handler of the source names the class
  \<^verbatim>\<open>subprocess.CalledCalledProcessError\<close>, which the module does not have: on a host
  where \<^verbatim>\<open>docker network create\<close> exits with status 1, the call raises
  \<^verbatim>\<open>AttributeError\<close> instead, and the only event is the command itself (nothing is
  printed). The failure still goes up to the caller.
\<close>

theorem run_command_nonzero_exit:
  "run_command overlap_host ''docker network create --driver=bridge hosting_net'' ([], [])
     = (Inl (AttributeError ''subprocess'' ''CalledCalledProcessError''),
        ([''docker network create --driver=bridge hosting_net''],
         [Sh ''docker network create --driver=bridge hosting_net'']))"
  by (simp add: run_command_result overlap_host_def overlap_shell_def)


lemma split_chr_first:
  "sep \<notin> set xs \<Longrightarrow> item0 (split_chr sep (xs @ sep # ys)) = Inr xs"
proof (induction xs)
  case Nil
  then show ?case by simp
next
  case (Cons x xs)
  then have "item0 (split_chr sep (xs @ sep # ys)) = Inr xs" by simp
  then obtain rest where "split_chr sep (xs @ sep # ys) = xs # rest"
    by (cases "split_chr sep (xs @ sep # ys)") simp_all
  with Cons.prems show ?case by auto
qed

lemma rsplit1_last:
  assumes "sep \<notin> set d"
  shows "rsplit1 sep (xs @ sep # d) = [xs, d]"
proof -
  have r: "rev (xs @ sep # d) = rev d @ sep # rev xs" by simp
  have "sep \<notin> set (rev d)" using assms by simp
  then have "dropWhile (\<lambda>c. c \<noteq> sep) (rev d @ sep # rev xs) = sep # rev xs"
    and "takeWhile (\<lambda>c. c \<noteq> sep) (rev d @ sep # rev xs) = rev d"
    by (auto simp: dropWhile_append3 takeWhile_tail)
  then show ?thesis unfolding rsplit1_def r by simp
qed

text \<open>
  Claim C5. For a subnet \<open>a.b.c.d/n\<close> (no slash inside the address, no dot inside the
  last octet) the gateway address is \<open>a.b.c\<close> followed by \<open>.1/28\<close>, whatever the prefix
  length \<open>n\<close> is; \<open>45.59.132.208/28\<close> gives \<open>45.59.132.1/28\<close>.
\<close>

theorem gateway_first_three_octets:
  assumes "CHR ''/'' \<notin> set (a @ b @ c @ d)" and "CHR ''.'' \<notin> set d"
  shows "gateway_ip (a @ ''.'' @ b @ ''.'' @ c @ ''.'' @ d @ ''/'' @ n)
           = Inr (a @ ''.'' @ b @ ''.'' @ c @ ''.1/28'')"
proof -
  let ?addr = "a @ ''.'' @ b @ ''.'' @ c @ ''.'' @ d"
  have noslash: "CHR ''/'' \<notin> set ?addr" using assms(1) by simp
  have "a @ ''.'' @ b @ ''.'' @ c @ ''.'' @ d @ ''/'' @ n = ?addr @ CHR ''/'' # n" by simp
  then have s1: "item0 (split_chr (CHR ''/'') (a @ ''.'' @ b @ ''.'' @ c @ ''.'' @ d @ ''/'' @ n))
                   = Inr ?addr"
    using split_chr_first [OF noslash, of n] by simp
  have "?addr = (a @ ''.'' @ b @ ''.'' @ c) @ CHR ''.'' # d" by simp
  then have s2: "rsplit1 (CHR ''.'') ?addr = [a @ ''.'' @ b @ ''.'' @ c, d]"
    using rsplit1_last [OF assms(2), of "a @ ''.'' @ b @ ''.'' @ c"] by simp
  show ?thesis
    unfolding gateway_ip_def s1 using s2 by (simp add: bind_exn_def)
qed

theorem gateway_first_three_octets_witness:
  "gateway_ip ''45.59.132.208/28'' = Inr ''45.59.132.1/28''"
  using gateway_first_three_octets [of "''45''" "''59''" "''132''" "''208''" "''28''"]
  by simp

subsection \<open>The plan catalog and the plan check\<close>

lemma not_in_PLANS:
  "map_of PLANS p = None \<longleftrightarrow> p \<notin> set [''vStart'', ''vProfessional'', ''vPopular'', ''vStable'']"
  by (simp add: PLANS_def)

lemma create_container_invalid_plan:
  assumes "map_of PLANS (strip (in_plan inp)) = None"
  shows "create_container E inp w =
           (w, [Print ''=== Hosting Container Creation ==='',
                Prompt ''Plan (vStart/vProfessional/vPopular/vStable): '',
                Prompt ''Client Domain Name: '',
                Prompt ''Container Name (no spaces): '',
                Prompt ''Container Username: '',
                Prompt ''Container Password: '',
                Prompt ''Database Admin Username: '',
                Prompt ''Database Admin Password: '',
                Prompt ''Database Username: '',
                Prompt ''Database Password: '',
                Prompt ''Optional: Docker subnet for containers (e.g., 45.59.132.208/28), leave empty for default bridge: '',
                Prompt ''Docker network name (e.g., hosting_net): '',
                Print ''Invalid plan. Please choose from vStart, vProfessional, vPopular, or vStable.''])"
  using assms
  by (simp add: create_container_def create_container_body_def input_strip_def bind_act_def
        emit_def return_act_def)

text \<open>
  Claim C7. The catalog gives 1 CPU and 4g for vStart, 2 and 8g for vProfessional, 4 and 16g
  for vPopular, 8 and 32g for vStable; any other identifier is not in the catalog. When
  the plan typed by the operator (after \<^verbatim>\<open>strip()\<close>) is not one of the four,
  \<^verbatim>\<open>create_container\<close> reports the invalid plan and returns: the host state is
  untouched, no command is run and no directory is made.
\<close>

theorem unknown_plan_aborts:
  "plan_lookup ''vStart'' = Inr \<lparr>cpu = ''1'', mem = ''4g'', dockerfile = ''Dockerfile.vStart''\<rparr>
   \<and> plan_lookup ''vProfessional''
       = Inr \<lparr>cpu = ''2'', mem = ''8g'', dockerfile = ''Dockerfile.vProfessional''\<rparr>
   \<and> plan_lookup ''vPopular'' = Inr \<lparr>cpu = ''4'', mem = ''16g'', dockerfile = ''Dockerfile.vPopular''\<rparr>
   \<and> plan_lookup ''vStable'' = Inr \<lparr>cpu = ''8'', mem = ''32g'', dockerfile = ''Dockerfile.vStable''\<rparr>
   \<and> (p \<notin> set [''vStart'', ''vProfessional'', ''vPopular'', ''vStable'']
        \<longrightarrow> plan_lookup p = Inl (KeyError p))
   \<and> (strip (in_plan inp) \<notin> set [''vStart'', ''vProfessional'', ''vPopular'', ''vStable'']
        \<longrightarrow> fst (create_container E inp w) = w
            \<and> effects (snd (create_container E inp w)) = []
            \<and> last (snd (create_container E inp w))
                = Print ''Invalid plan. Please choose from vStart, vProfessional, vPopular, or vStable.'')"
proof (intro conjI impI)
  show "plan_lookup ''vStart'' = Inr \<lparr>cpu = ''1'', mem = ''4g'', dockerfile = ''Dockerfile.vStart''\<rparr>"
    by (simp add: plan_lookup_def PLANS_def)
  show "plan_lookup ''vProfessional''
       = Inr \<lparr>cpu = ''2'', mem = ''8g'', dockerfile = ''Dockerfile.vProfessional''\<rparr>"
    by (simp add: plan_lookup_def PLANS_def)
  show "plan_lookup ''vPopular'' = Inr \<lparr>cpu = ''4'', mem = ''16g'', dockerfile = ''Dockerfile.vPopular''\<rparr>"
    by (simp add: plan_lookup_def PLANS_def)
  show "plan_lookup ''vStable'' = Inr \<lparr>cpu = ''8'', mem = ''32g'', dockerfile = ''Dockerfile.vStable''\<rparr>"
    by (simp add: plan_lookup_def PLANS_def)
next
  assume "p \<notin> set [''vStart'', ''vProfessional'', ''vPopular'', ''vStable'']"
  then have "map_of PLANS p = None" using not_in_PLANS by blast
  then show "plan_lookup p = Inl (KeyError p)" by (simp add: plan_lookup_def)
next
  assume "strip (in_plan inp) \<notin> set [''vStart'', ''vProfessional'', ''vPopular'', ''vStable'']"
  then have none: "map_of PLANS (strip (in_plan inp)) = None" using not_in_PLANS by blast
  note tr = create_container_invalid_plan [OF none, of E w]
  show "fst (create_container E inp w) = w" by (simp add: tr)
  show "effects (snd (create_container E inp w)) = []" by (simp add: tr effects_def)
  show "last (snd (create_container E inp w))
          = Print ''Invalid plan. Please choose from vStart, vProfessional, vPopular, or vStable.''"
    by (simp add: tr)
qed

theorem unknown_plan_aborts_witness:
  "plan_lookup ''vGold'' = Inl (KeyError ''vGold'')
   \<and> fst (create_container history_host (example_inputs\<lparr>in_plan := '' vGold ''\<rparr>) []) = []
   \<and> effects (snd (create_container history_host (example_inputs\<lparr>in_plan := '' vGold ''\<rparr>) [])) = []
   \<and> last (snd (create_container history_host (example_inputs\<lparr>in_plan := '' vGold ''\<rparr>) []))
       = Print ''Invalid plan. Please choose from vStart, vProfessional, vPopular, or vStable.''"
proof -
  have s: "strip (in_plan (example_inputs\<lparr>in_plan := '' vGold ''\<rparr>)) = ''vGold''"
    by (simp add: strip_def py_isspace_def)
  have n: "''vGold'' \<notin> set [''vStart'', ''vProfessional'', ''vPopular'', ''vStable'']"
    by simp
  show ?thesis
    using unknown_plan_aborts [of "''vGold''" "example_inputs\<lparr>in_plan := '' vGold ''\<rparr>"
        history_host "[]"] n
    unfolding s by blast
qed

subsection \<open>The network provisioner called twice\<close>

lemma subprocess_run_fs:
  "subprocess_run E command (w, tr) =
     (Inr (fst (shell E command w)), (snd (shell E command w), tr @ [Sh command]))"
  by (simp add: subprocess_run_def split: prod.splits)

lemma run_command_fs:
  "run_command E command (w, tr) =
     (if returncode (fst (shell E command w)) = 0
      then Inr (strip (stdout (fst (shell E command w))))
      else Inl (AttributeError ''subprocess'' ''CalledCalledProcessError''),
      (snd (shell E command w), tr @ [Sh command]))"
  by (simp add: run_command_result split: prod.splits)




lemmas act_defs = reraise_printing_def bind_act_def emit_def return_act_def lift_exn_def
  subprocess_run_fs run_command_fs

lemma create_host_interface_effects:
  assumes "gateway_ip subnet = Inr g"
  shows "\<exists>r w' t. create_host_interface E subnet ifn (w, tr) = (r, (w', tr @ t))
           \<and> effects t \<in> set [[Sh (interface_check_cmd ifn)],
                                [Sh (interface_check_cmd ifn), Sh (link_add_cmd ifn)],
                                [Sh (interface_check_cmd ifn), Sh (link_add_cmd ifn),
                                 Sh (addr_add_cmd g ifn)],
                                [Sh (interface_check_cmd ifn), Sh (link_add_cmd ifn),
                                 Sh (addr_add_cmd g ifn), Sh (link_up_cmd ifn)]]"
  by (simp add: create_host_interface_def act_defs assms effects_def)

















subsection \<open>The order of the launcher's steps\<close>

lemma appendsI: "(\<And>w tr. \<exists>r w' t. m (w, tr) = (r, (w', tr @ t))) \<Longrightarrow> appends m"
  by (simp add: appends_def)

lemma appendsD: "appends m \<Longrightarrow> \<exists>r w' t. m (w, tr) = (r, (w', tr @ t))"
  by (simp add: appends_def)

lemma appends_return: "appends (return_act a)"
  by (simp add: appends_def return_act_def)

lemma appends_lift: "appends (lift_exn r)"
  by (simp add: appends_def lift_exn_def)

lemma appends_emit: "appends (emit ev)"
  by (simp add: appends_def emit_def)

lemma appends_subprocess_run: "appends (subprocess_run E c)"
  by (simp add: appends_def subprocess_run_fs)

lemma appends_run_command: "appends (run_command E c)"
  by (simp add: appends_def run_command_fs)

lemma appends_makedirs: "appends (os_makedirs E path)"
  by (simp add: appends_def os_makedirs_def split: prod.splits)

lemma appends_random_port: "appends (random_port E lo hi)"
  by (simp add: appends_def random_port_def split: prod.splits)

lemma appends_bind:
  assumes "appends m" and "\<And>a. appends (f a)"
  shows "appends (bind_act m f)"
proof (rule appendsI)
  fix w tr
  obtain r w' t where m: "m (w, tr) = (r, (w', tr @ t))"
    using appendsD [OF assms(1)] by blast
  show "\<exists>r w' t. bind_act m f (w, tr) = (r, (w', tr @ t))"
  proof (cases r)
    case (Inl e)
    then show ?thesis using m by (simp add: bind_act_def)
  next
    case (Inr a)
    obtain r2 w2 t2 where "f a (w', tr @ t) = (r2, (w2, (tr @ t) @ t2))"
      using appendsD [OF assms(2)] by blast
    then show ?thesis using m Inr by (simp add: bind_act_def)
  qed
qed

lemma appends_reraise:
  assumes "appends m"
  shows "appends (reraise_printing msg m)"
proof (rule appendsI)
  fix w tr
  obtain r w' t where m: "m (w, tr) = (r, (w', tr @ t))"
    using appendsD [OF assms] by blast
  show "\<exists>r w' t. reraise_printing msg m (w, tr) = (r, (w', tr @ t))"
    using m by (cases r) (simp_all add: reraise_printing_def)
qed

lemma appends_if: "appends a \<Longrightarrow> appends b \<Longrightarrow> appends (if c then a else b)"
  by simp

lemmas appends_intros = appends_bind appends_reraise appends_return appends_lift appends_emit
  appends_subprocess_run appends_run_command appends_makedirs appends_random_port appends_if

lemma appends_create_host_interface: "appends (create_host_interface E subnet ifn)"
  unfolding create_host_interface_def by (intro appends_intros)

lemma appends_network_tail:
  "appends (case subnet_cidr of
              None \<Rightarrow> bind_act (run_command E (network_create_cmd name)) (\<lambda>_. return_act ())
            | Some subnet \<Rightarrow>
                if subnet = [] then
                  bind_act (run_command E (network_create_cmd name)) (\<lambda>_. return_act ())
                else
                  bind_act (create_host_interface E subnet ''docknet0'') (\<lambda>_.
                  bind_act (run_command E (network_create_subnet_cmd subnet name)) (\<lambda>_.
                    return_act ())))"
  by (cases subnet_cidr) (auto intro!: appends_intros appends_create_host_interface)

lemma appends_remove_existing_container: "appends (remove_existing_container E name)"
  unfolding remove_existing_container_def Let_def by (intro appends_intros)

lemma network_starts_with_query:
  "\<exists>r w' t. create_docker_network E name subnet (w, tr)
              = (r, (w', tr @ Sh (network_query_cmd name) # t))"
proof -
  let ?k = "\<lambda>result. if strip (stdout result) = [] then
            bind_act (emit (Print (''Creating Docker network '' @ sq @ name @ sq @ '' ...''))) (\<lambda>_.
              (case subnet of
                 None \<Rightarrow>
                   bind_act (run_command E (network_create_cmd name)) (\<lambda>_. return_act ())
               | Some subnet \<Rightarrow>
                   if subnet = [] then
                     bind_act (run_command E (network_create_cmd name)) (\<lambda>_. return_act ())
                   else
                     bind_act (create_host_interface E subnet ''docknet0'') (\<lambda>_.
                     bind_act (run_command E (network_create_subnet_cmd subnet name)) (\<lambda>_.
                       return_act ()))))
          else emit (Print (''Docker network '' @ name @ '' already exists.''))"
  have k: "appends (?k result)" for result
    by (intro appends_intros appends_network_tail)
  obtain r2 w2 t2 where
    "?k (fst (shell E (network_query_cmd name) w))
        (snd (shell E (network_query_cmd name) w), tr @ [Sh (network_query_cmd name)])
      = (r2, (w2, (tr @ [Sh (network_query_cmd name)]) @ t2))"
    using appendsD [OF k] by blast
  then show ?thesis
    by (cases r2) (simp_all add: create_docker_network_def reraise_printing_def bind_act_def
          subprocess_run_fs Let_def)
qed


lemma effects_append: "effects (xs @ ys) = effects xs @ effects ys"
  by (simp add: effects_def)

lemma build_image_result:
  assumes "map_of PLANS plan_name = Some p"
  shows "build_image E plan_name (w, tr) =
           (if returncode (fst (shell E (build_cmd E (''hosting:'' @ lower plan_name)
                                           (path_join (DOCKERFILES_DIR E) (dockerfile p))) w)) = 0
            then Inr (''hosting:'' @ lower plan_name)
            else Inl (AttributeError ''subprocess'' ''CalledCalledProcessError''),
            (snd (shell E (build_cmd E (''hosting:'' @ lower plan_name)
                             (path_join (DOCKERFILES_DIR E) (dockerfile p))) w),
             tr @ [Print (''Building Docker image '' @ (''hosting:'' @ lower plan_name) @ '' from ''
                          @ path_join (DOCKERFILES_DIR E) (dockerfile p) @ '' ...''),
                   Sh (build_cmd E (''hosting:'' @ lower plan_name)
                         (path_join (DOCKERFILES_DIR E) (dockerfile p)))]))"
  using assms
  by (simp add: build_image_def plan_lookup_def act_defs Let_def)

lemma appends_launch_tail:
  "appends (bind_act (remove_existing_container E (in_cname v)) (\<lambda>_.
     bind_act (random_port E 20000 30000) (\<lambda>http_port.
     bind_act (random_port E 30001 40000) (\<lambda>https_port.
     bind_act (random_port E 40001 50000) (\<lambda>ssh_port.
     bind_act (random_port E 50001 60000) (\<lambda>mysql_port.
     bind_act (emit (Print (CHR 0x0A # ''Running container '' @ in_cname v @ '' for domain ''
                              @ in_domain v @ '' ...''))) (\<lambda>_.
     bind_act (lift_exn (plan_lookup (in_plan v))) (\<lambda>p.
     bind_act (run_command E
                 (docker_run_cmd v p web_dir http_port https_port ssh_port mysql_port
                    image_tag)) (\<lambda>container_id.
       emit (Print_summary
               \<lparr> sum_container_id = container_id, sum_domain = in_domain v,
                 sum_plan = in_plan v, sum_cname = in_cname v,
                 sum_network = in_network_name v, sum_username = in_username v,
                 sum_password = in_password v, sum_db_admin_user = in_db_admin_user v,
                 sum_db_admin_pass = in_db_admin_pass v, sum_db_user = in_db_user v,
                 sum_db_pass = in_db_pass v, sum_web_dir = web_dir,
                 sum_http_port = http_port, sum_https_port = https_port,
                 sum_ssh_port = ssh_port, sum_mysql_port = mysql_port \<rparr>))))))))))"
  by (intro appends_intros appends_remove_existing_container)

lemma launch_effects:
  fixes E :: "'w env" and v :: inputs and p :: plan
  assumes "map_of PLANS (in_plan v) = Some p"
  defines "build \<equiv> build_cmd E (''hosting:'' @ lower (in_plan v))
                      (path_join (DOCKERFILES_DIR E) (dockerfile p))"
  shows "\<exists>rest. effects (snd (snd (launch E v (w, tr)))) =
           effects tr @
           Sh build
           # (if returncode (fst (shell E build w)) \<noteq> 0 then []
              else Mkdir (web_dir_of (in_cname v))
                   # (case fst (makedirs E (web_dir_of (in_cname v)) (snd (shell E build w))) of
                        Inl e \<Rightarrow> []
                      | Inr u \<Rightarrow> Sh (network_query_cmd (in_network_name v)) # rest))"
proof (cases "returncode (fst (shell E build w)) = 0")
  case False
  then show ?thesis
    unfolding build_def launch_def
    by (simp add: bind_act_def build_image_result [OF assms(1)] effects_append)
       (simp add: effects_def)
next
  case True
  let ?w1 = "snd (shell E build w)"
  let ?dir = "web_dir_of (in_cname v)"
  let ?tr1 = "tr @ [Print (''Building Docker image '' @ (''hosting:'' @ lower (in_plan v)) @ '' from ''
                          @ path_join (DOCKERFILES_DIR E) (dockerfile p) @ '' ...''), Sh build]"
  have e1: "effects ?tr1 = effects tr @ [Sh build]" by (simp add: effects_def)
  obtain m w2 where mk: "makedirs E ?dir ?w1 = (m, w2)" by (cases "makedirs E ?dir ?w1") auto
  show ?thesis
  proof (cases m)
    case (Inl e)
    have "snd (snd (launch E v (w, tr))) = ?tr1 @ [Mkdir ?dir]"
      using True mk Inl unfolding build_def launch_def
      by (simp add: bind_act_def build_image_result [OF assms(1)] os_makedirs_def Let_def)
    then show ?thesis using True mk Inl e1 by (simp add: effects_append) (simp add: effects_def)
  next
    case (Inr u)
    let ?tr2 = "?tr1 @ [Mkdir ?dir]"
    let ?net = "create_docker_network E (in_network_name v)
                  (if in_subnet v \<noteq> [] then Some (in_subnet v) else None)"
    have "\<exists>r3 w3 t3. ?net (w2, ?tr2)
        = (r3, (w3, ?tr2 @ Sh (network_query_cmd (in_network_name v)) # t3))"
      by (rule network_starts_with_query)
    then obtain r3 w3 t3 where net: "?net (w2, ?tr2)
        = (r3, (w3, ?tr2 @ Sh (network_query_cmd (in_network_name v)) # t3))"
      by (elim exE)
    let ?tr3 = "?tr2 @ Sh (network_query_cmd (in_network_name v)) # t3"
    have e3: "effects ?tr3 = effects tr @ Sh build # Mkdir ?dir
                # Sh (network_query_cmd (in_network_name v)) # effects t3"
      by (simp add: effects_append e1) (simp add: effects_def)
    show ?thesis
    proof (cases r3)
      case (Inl e)
      have "snd (snd (launch E v (w, tr))) = ?tr3"
        using True mk Inr net Inl unfolding build_def launch_def
        by (simp add: bind_act_def build_image_result [OF assms(1)] os_makedirs_def Let_def)
      then show ?thesis using True mk Inr e3 by simp
    next
      case ok: (Inr u3)
      obtain r4 w4 t4 where tail:
        "bind_act (remove_existing_container E (in_cname v)) (\<lambda>_.
           bind_act (random_port E 20000 30000) (\<lambda>http_port.
           bind_act (random_port E 30001 40000) (\<lambda>https_port.
           bind_act (random_port E 40001 50000) (\<lambda>ssh_port.
           bind_act (random_port E 50001 60000) (\<lambda>mysql_port.
           bind_act (emit (Print (CHR 0x0A # ''Running container '' @ in_cname v @ '' for domain ''
                                    @ in_domain v @ '' ...''))) (\<lambda>_.
           bind_act (lift_exn (plan_lookup (in_plan v))) (\<lambda>p.
           bind_act (run_command E
                       (docker_run_cmd v p ?dir http_port https_port ssh_port mysql_port
                          (''hosting:'' @ lower (in_plan v)))) (\<lambda>container_id.
             emit (Print_summary
                     \<lparr> sum_container_id = container_id, sum_domain = in_domain v,
                       sum_plan = in_plan v, sum_cname = in_cname v,
                       sum_network = in_network_name v, sum_username = in_username v,
                       sum_password = in_password v, sum_db_admin_user = in_db_admin_user v,
                       sum_db_admin_pass = in_db_admin_pass v, sum_db_user = in_db_user v,
                       sum_db_pass = in_db_pass v, sum_web_dir = ?dir,
                       sum_http_port = http_port, sum_https_port = https_port,
                       sum_ssh_port = ssh_port, sum_mysql_port = mysql_port \<rparr>)))))))))
           (w3, ?tr3) = (r4, (w4, ?tr3 @ t4))"
        using appendsD [OF appends_launch_tail, of E v ?dir "''hosting:'' @ lower (in_plan v)" w3 ?tr3]
        by (elim exE)
      have "snd (snd (launch E v (w, tr))) = ?tr3 @ t4"
        using True mk Inr net ok tail unfolding build_def launch_def
        by (simp add: bind_act_def build_image_result [OF assms(1)] os_makedirs_def Let_def)
      then have "effects (snd (snd (launch E v (w, tr)))) = effects ?tr3 @ effects t4"
        by (simp only: effects_append)
      then show ?thesis using True mk Inr e3 by simp
    qed
  qed
qed


lemma create_container_valid_plan:
  assumes "map_of PLANS (strip (in_plan inp)) = Some p"
  shows "create_container_body E inp (w, []) =
           launch E \<lparr>in_plan = strip (in_plan inp), in_domain = strip (in_domain inp),
                     in_cname = strip (in_cname inp), in_username = strip (in_username inp),
                     in_password = strip (in_password inp),
                     in_db_admin_user = strip (in_db_admin_user inp),
                     in_db_admin_pass = strip (in_db_admin_pass inp),
                     in_db_user = strip (in_db_user inp), in_db_pass = strip (in_db_pass inp),
                     in_subnet = strip (in_subnet inp),
                     in_network_name = strip (in_network_name inp)\<rparr>
             (w, [Print ''=== Hosting Container Creation ==='',
                  Prompt ''Plan (vStart/vProfessional/vPopular/vStable): '',
                  Prompt ''Client Domain Name: '',
                  Prompt ''Container Name (no spaces): '',
                  Prompt ''Container Username: '',
                  Prompt ''Container Password: '',
                  Prompt ''Database Admin Username: '',
                  Prompt ''Database Admin Password: '',
                  Prompt ''Database Username: '',
                  Prompt ''Database Password: '',
                  Prompt ''Optional: Docker subnet for containers (e.g., 45.59.132.208/28), leave empty for default bridge: '',
                  Prompt ''Docker network name (e.g., hosting_net): ''])"
  using assms
  by (simp add: create_container_body_def input_strip_def bind_act_def emit_def return_act_def)

lemma create_container_effects_body:
  "effects (snd (create_container E inp w))
     = effects (snd (snd (create_container_body E inp (w, []))))"
  by (simp add: create_container_def effects_def split: prod.splits sum.splits)

lemma create_container_effects:
  assumes "map_of PLANS (strip (in_plan inp)) = Some p"
  shows "let build = build_cmd E (''hosting:'' @ lower (strip (in_plan inp)))
                       (path_join (DOCKERFILES_DIR E) (dockerfile p));
             dir = web_dir_of (strip (in_cname inp))
         in \<exists>rest. effects (snd (create_container E inp w)) =
              Sh build
              # (if returncode (fst (shell E build w)) \<noteq> 0 then []
                 else Mkdir dir
                      # (case fst (makedirs E dir (snd (shell E build w))) of
                           Inl e \<Rightarrow> []
                         | Inr u \<Rightarrow> Sh (network_query_cmd (strip (in_network_name inp))) # rest))"
proof -
  let ?v = "\<lparr>in_plan = strip (in_plan inp), in_domain = strip (in_domain inp),
                     in_cname = strip (in_cname inp), in_username = strip (in_username inp),
                     in_password = strip (in_password inp),
                     in_db_admin_user = strip (in_db_admin_user inp),
                     in_db_admin_pass = strip (in_db_admin_pass inp),
                     in_db_user = strip (in_db_user inp), in_db_pass = strip (in_db_pass inp),
                     in_subnet = strip (in_subnet inp),
                     in_network_name = strip (in_network_name inp)\<rparr>"
  let ?P = "[Print ''=== Hosting Container Creation ==='',
                  Prompt ''Plan (vStart/vProfessional/vPopular/vStable): '',
                  Prompt ''Client Domain Name: '',
                  Prompt ''Container Name (no spaces): '',
                  Prompt ''Container Username: '',
                  Prompt ''Container Password: '',
                  Prompt ''Database Admin Username: '',
                  Prompt ''Database Admin Password: '',
                  Prompt ''Database Username: '',
                  Prompt ''Database Password: '',
                  Prompt ''Optional: Docker subnet for containers (e.g., 45.59.132.208/28), leave empty for default bridge: '',
                  Prompt ''Docker network name (e.g., hosting_net): '']"
  have v: "map_of PLANS (in_plan ?v) = Some p" using assms by simp
  have sel: "in_plan ?v = strip (in_plan inp)" "in_cname ?v = strip (in_cname inp)"
    "in_network_name ?v = strip (in_network_name inp)"
    by simp_all
  have noeff: "effects ?P = []" by (simp add: effects_def)
  note L = launch_effects [OF v, where E = E and w = w and tr = ?P,
      unfolded sel noeff append_Nil]
  show ?thesis
    unfolding Let_def create_container_effects_body create_container_valid_plan [OF assms]
    by (rule L)
qed


text \<open>
  Claim C2, as amended. For a request with a valid plan the first effect of
  \<^verbatim>\<open>create_container\<close> is the image build. If the build fails nothing else happens.
  Otherwise the web directory \<^verbatim>\<open>/srv/{name}/www\<close> is made next, and only when that has
  succeeded does the network provisioner start, with its query of the runtime: the network
  is never touched before the directory step, and the directory step never comes before
  the image build.
\<close>

theorem launcher_order:
  "map_of PLANS (strip (in_plan inp)) = Some p \<Longrightarrow>
   (let build = build_cmd E (''hosting:'' @ lower (strip (in_plan inp)))
                  (path_join (DOCKERFILES_DIR E) (dockerfile p));
        dir = web_dir_of (strip (in_cname inp))
    in \<exists>rest. effects (snd (create_container E inp w)) =
         Sh build
         # (if returncode (fst (shell E build w)) \<noteq> 0 then []
            else Mkdir dir
                 # (case fst (makedirs E dir (snd (shell E build w))) of
                      Inl e \<Rightarrow> []
                    | Inr u \<Rightarrow> Sh (network_query_cmd (strip (in_network_name inp))) # rest)))"
  by (rule create_container_effects)

lemma example_inputs_stripped:
  "strip (in_plan example_inputs) = ''vStart''"
  "strip (in_cname example_inputs) = ''site1''"
  "strip (in_network_name example_inputs) = ''hosting_net''"
  by (simp_all add: example_inputs_def strip_def py_isspace_def)

lemma example_plan:
  "map_of PLANS ''vStart'' = Some \<lparr>cpu = ''1'', mem = ''4g'', dockerfile = ''Dockerfile.vStart''\<rparr>"
  by (simp add: PLANS_def)

lemma example_build_cmd:
  "build_cmd history_host (''hosting:'' @ lower ''vStart'')
     (path_join (DOCKERFILES_DIR history_host)
        (dockerfile \<lparr>cpu = ''1'', mem = ''4g'', dockerfile = ''Dockerfile.vStart''\<rparr>))
   = ''docker build -t hosting:vstart -f /opt/hosting/scripts/../Dockerfiles/Dockerfile.vStart /opt/hosting/scripts/../Dockerfiles''"
  by (simp add: build_cmd_def lower_def lower_chr_def path_join_def DOCKERFILES_DIR_def
        history_host_def)

lemma example_build_succeeds:
  "returncode (fst (shell history_host
      ''docker build -t hosting:vstart -f /opt/hosting/scripts/../Dockerfiles/Dockerfile.vStart /opt/hosting/scripts/../Dockerfiles'' [])) = 0"
  by (simp add: history_host_def history_shell_def)

lemma example_makedirs_succeeds: "fst (makedirs history_host path hist) = Inr ()"
  by (simp add: history_host_def)

lemma example_create_container_effects:
  "\<exists>rest. effects (snd (create_container history_host example_inputs [])) =
     Sh ''docker build -t hosting:vstart -f /opt/hosting/scripts/../Dockerfiles/Dockerfile.vStart /opt/hosting/scripts/../Dockerfiles''
     # Mkdir ''/srv/site1/www''
     # Sh ''docker network ls --filter name=^hosting_net$ -q'' # rest"
  using create_container_effects [of example_inputs
      "\<lparr>cpu = ''1'', mem = ''4g'', dockerfile = ''Dockerfile.vStart''\<rparr>" history_host "[]"]
  unfolding example_inputs_stripped Let_def example_build_cmd
  by (simp add: example_plan example_build_succeeds example_makedirs_succeeds web_dir_of_def
        network_query_cmd_def)

theorem launcher_order_witness:
  "\<exists>rest. effects (snd (create_container history_host example_inputs [])) =
     Sh ''docker build -t hosting:vstart -f /opt/hosting/scripts/../Dockerfiles/Dockerfile.vStart /opt/hosting/scripts/../Dockerfiles''
     # Mkdir ''/srv/site1/www''
     # Sh ''docker network ls --filter name=^hosting_net$ -q'' # rest"
  using launcher_order [of example_inputs
      "\<lparr>cpu = ''1'', mem = ''4g'', dockerfile = ''Dockerfile.vStart''\<rparr>" history_host "[]"]
  unfolding example_inputs_stripped Let_def example_build_cmd
  by (simp add: example_plan example_build_succeeds example_makedirs_succeeds web_dir_of_def
        network_query_cmd_def)

text \<open>
  Claim C2 as stated puts the directory step before the image build. On a host where every
  command succeeds the first two effects are the image build and then the directory.
\<close>

theorem image_built_before_directory:
  "take 2 (effects (snd (create_container history_host example_inputs []))) =
     [Sh ''docker build -t hosting:vstart -f /opt/hosting/scripts/../Dockerfiles/Dockerfile.vStart /opt/hosting/scripts/../Dockerfiles'',
      Mkdir ''/srv/site1/www'']"
proof -
  obtain rest where "effects (snd (create_container history_host example_inputs [])) =
     Sh ''docker build -t hosting:vstart -f /opt/hosting/scripts/../Dockerfiles/Dockerfile.vStart /opt/hosting/scripts/../Dockerfiles''
     # Mkdir ''/srv/site1/www''
     # Sh ''docker network ls --filter name=^hosting_net$ -q'' # rest"
    using example_create_container_effects by (elim exE)
  then show ?thesis by simp
qed

section \<open>Properties of the stats collector\<close>

subsection \<open>Evaluating the float operations\<close>

lemma floor_rat_numeral: "\<lfloor>(numeral a :: rat) / numeral b\<rfloor> = numeral a div numeral b"
  using floor_divide_of_int_eq [of "numeral a" "numeral b", where ?'a = rat] by simp

lemma floor_rat_neg_numeral:
  "\<lfloor>- ((numeral a :: rat) / numeral b)\<rfloor> = (- numeral a) div numeral b"
  using floor_divide_of_int_eq [of "- numeral a" "numeral b", where ?'a = rat] by simp

lemma ceiling_rat_numeral:
  "\<lceil>(numeral a :: rat) / numeral b\<rceil> = - ((- numeral a) div numeral b)"
  by (simp add: ceiling_def floor_rat_neg_numeral)

lemma fl_finiteI:
  assumes "q \<noteq> 0"
    and "ilog2 \<bar>q\<bar> = L"
    and "round_half_even (\<bar>q\<bar> / pow2 (max (L - 52) (- 1074))) = m"
    and "of_int m * pow2 (max (L - 52) (- 1074)) = r"
    and "r < 2 ^ 1024"
    and "v = (if 0 < q then r else - r)"
  shows "fl q = Finite v"
  unfolding fl_def Let_def assms(2) assms(3) assms(4)
  using assms(1,5,6) by (simp add: not_le)

lemmas num_eval = ilog2_def bits.simps pow2_def round_half_even_def Let_def
  floor_rat_numeral floor_rat_neg_numeral ceiling_rat_numeral


lemma fl_one_fifth: "fl (1 / 5) = Finite (3602879701896397 / 18014398509481984)"
  by (rule fl_finiteI [where L = "- 3" and m = 7205759403792794
        and r = "3602879701896397 / 18014398509481984"])
     (simp_all add: num_eval)

lemma round_half_even_of_int: "round_half_even (of_int z) = z"
  by (simp add: round_half_even_def)

lemma bits_bound: "n < 2 ^ k \<Longrightarrow> bits n \<le> k"
proof (induction k arbitrary: n)
  case 0
  then show ?case by (simp add: bits.simps)
next
  case (Suc k)
  show ?case
  proof (cases "n = 0")
    case True
    then show ?thesis by (simp add: bits.simps)
  next
    case False
    have "n div 2 < 2 ^ k" using Suc.prems by simp
    then have "bits (n div 2) \<le> k" by (rule Suc.IH)
    then show ?thesis using False by (subst bits.simps) simp
  qed
qed

lemma bits_pos: "0 < n \<Longrightarrow> 0 < bits n"
  by (subst bits.simps) simp

lemma fl_of_int:
  assumes "\<bar>n\<bar> < 2 ^ 53"
  shows "fl (of_int n) = Finite (of_int n)"
proof (cases "n = 0")
  case True
  then show ?thesis by (simp add: fl_def)
next
  case False
  let ?a = "\<bar>of_int n :: rat\<bar>"
  let ?b = "bits (nat \<bar>n\<bar>)"
  have a: "?a = of_int \<bar>n\<bar>" by simp
  have a1: "1 \<le> ?a" using False by (simp add: a del: of_int_abs) 
  have "nat \<bar>n\<bar> < 2 ^ 53" using assms by (simp add: nat_less_iff)
  then have b53: "?b \<le> 53" by (rule bits_bound)
  have bpos: "0 < ?b" using False by (intro bits_pos) simp
  have L: "ilog2 ?a = int ?b - 1"
    using a1 by (simp add: ilog2_def a del: of_int_abs)
  define k where "k = 53 - ?b"
  have e: "max (int ?b - 1 - 52) (- 1074) = - int k"
    using b53 bpos by (simp add: k_def)
  have p: "pow2 (- int k) = 1 / 2 ^ k" by (simp add: pow2_def)
  have "?a / pow2 (- int k) = of_int (\<bar>n\<bar> * 2 ^ k)" by (simp add: p a del: of_int_abs)
  then have m: "round_half_even (?a / pow2 (max (int ?b - 1 - 52) (- 1074))) = \<bar>n\<bar> * 2 ^ k"
    unfolding e by (simp only: round_half_even_of_int)
  have r: "of_int (\<bar>n\<bar> * 2 ^ k) * pow2 (max (int ?b - 1 - 52) (- 1074)) = ?a"
    unfolding e p by (simp add: a del: of_int_abs)
  have "(of_int \<bar>n\<bar> :: rat) < of_int (2 ^ 53)" using assms by (simp only: of_int_less_iff)
  also have "(of_int (2 ^ 53) :: rat) < 2 ^ 1024" by simp
  finally have lt: "?a < 2 ^ 1024" by (simp add: a del: of_int_abs)
  show ?thesis
    by (rule fl_finiteI [OF _ L m r lt]) (use False in auto)
qed


lemma float_of_int_small: "\<bar>n\<bar> < 2 ^ 53 \<Longrightarrow> float_of_int n = Inr (Finite (of_int n))"
  by (simp add: float_of_int_def fl_of_int)

lemma py_round2_of_int:
  assumes "\<bar>n\<bar> < 2 ^ 53"
  shows "py_round2 (Finite (of_int n)) = Inr (Finite (of_int n))"
proof -
  have "(of_int n :: rat) * 100 = of_int (n * 100)" by simp
  then have r: "round_half_even (of_int n * 100) = n * 100"
    by (simp only: round_half_even_of_int)
  have d: "(of_int (n * 100) :: rat) / 100 = of_int n" by simp
  show ?thesis
    unfolding py_round2.simps r d fl_of_int [OF assms] by simp
qed

lemma py_round2_zero: "py_round2 (Finite 0) = Inr (Finite 0)"
  using py_round2_of_int [of 0] by simp

subsection \<open>The loop of the collector\<close>

lemma collect_rows_append:
  "collect_rows (xs @ ys) =
     (fst (collect_rows xs) @ fst (collect_rows ys), snd (collect_rows xs) @ snd (collect_rows ys))"
  by (induction xs) (simp_all split: sum.splits)

lemma collect_rows_at:
  assumes "container_row c = (evs, Inr r)"
  shows "collect_rows (pre @ c # post) =
           (fst (collect_rows pre) @ evs @ fst (collect_rows post),
            snd (collect_rows pre) @ r # snd (collect_rows post))"
  using assms by (simp add: collect_rows_append)

lemma collect_listed:
  assumes "containers_list cl all_containers = Inr (pre @ c # post)"
    and "container_row c = (evs, Inr r)"
  shows "collect_container_stats (Some cl) all_containers =
           (Called_containers_list all_containers
              # fst (collect_rows pre) @ evs @ fst (collect_rows post),
            Inr (snd (collect_rows pre) @ r # snd (collect_rows post)))"
  using assms(1) by (simp add: collect_container_stats_def collect_rows_at [OF assms(2)])

lemma running_row:
  assumes "c_status c = ''running''" and "c_stats c = Inr stats"
    and "cpu_percent_of stats = Inr cp" and "mem_of stats = Inr (mu, ml, mp)"
    and "port_list (c_attrs c) = Inr ps"
    and "py_round2 cp = Inr cpu_r" and "py_round2 mp = Inr mem_r"
  shows "container_row c =
           ([Called_stats (c_id c)],
            Inr \<lparr>container_id = take 12 (c_id c), container_name = c_name c,
                 row_status = c_status c, container_cpu_pct = cpu_r, container_mem_pct = mem_r,
                 container_mem_usage_bytes = mu, container_mem_limit_bytes = ml,
                 ports = join '', '' ps\<rparr>)"
  using assms
  by (simp add: container_row_def usage_of_def bind_exn_def del: py_round2.simps)

lemma not_running_row:
  assumes "c_status c \<noteq> ''running''" and "port_list (c_attrs c) = Inr ps"
  shows "container_row c =
           ([],
            Inr \<lparr>container_id = take 12 (c_id c), container_name = c_name c,
                 row_status = c_status c, container_cpu_pct = Finite 0,
                 container_mem_pct = Finite 0, container_mem_usage_bytes = JInt 0,
                 container_mem_limit_bytes = JInt 0, ports = join '', '' ps\<rparr>)"
  using assms
  by (simp add: container_row_def usage_of_def bind_exn_def py_round2_zero del: py_round2.simps)

subsection \<open>The percentages\<close>

lemma online_cpu_count_eq:
  assumes "map_of cs ''cpu_usage'' = Some (JDict cu)"
    and "dict_get (JDict cs) ''online_cpus'' JNull = Inr (case online of None \<Rightarrow> JNull | Some k \<Rightarrow> JInt (int k))"
    and "dict_get (JDict cu) ''percpu_usage'' (JList []) = Inr (JList percpu)"
  shows "online_cpu_count (JDict cs) = Inr (JInt (spec_online_cpu_count online (length percpu)))"
  using assms
  by (cases online) (auto simp: online_cpu_count_def bind_exn_def spec_online_cpu_count_def)

lemma spec_online_pos: "0 < spec_online_cpu_count online n"
  by (auto simp: spec_online_cpu_count_def split: option.splits)

lemma cpu_percent_of_eq:
  assumes "dict_get stats ''cpu_stats'' (JDict []) = Inr (JDict cs)"
    and "dict_get stats ''precpu_stats'' (JDict []) = Inr (JDict ps)"
    and "map_of cs ''cpu_usage'' = Some (JDict cu)"
    and "map_of cu ''total_usage'' = Some (JInt cur_total)"
    and "map_of ps ''cpu_usage'' = Some (JDict pcu)"
    and "map_of pcu ''total_usage'' = Some (JInt pre_total)"
    and "dict_get (JDict cs) ''system_cpu_usage'' (JInt 0) = Inr (JInt sys)"
    and "dict_get (JDict ps) ''system_cpu_usage'' (JInt 0) = Inr (JInt presys)"
    and "dict_get (JDict cs) ''online_cpus'' JNull = Inr (case online of None \<Rightarrow> JNull | Some k \<Rightarrow> JInt (int k))"
    and "dict_get (JDict cu) ''percpu_usage'' (JList []) = Inr (JList percpu)"
  shows "cpu_percent_of stats =
           spec_cpu_percent (cur_total - pre_total) (sys - presys)
             (spec_online_cpu_count online (length percpu))"
proof -
  have cs: "cs \<noteq> []" and ps: "ps \<noteq> []" using assms(3,5) by auto
  have oc: "online_cpu_count (JDict cs) = Inr (JInt (spec_online_cpu_count online (length percpu)))"
    using online_cpu_count_eq [OF assms(3) assms(9) assms(10)] .
  show ?thesis
    using assms(1-8) cs ps spec_online_pos [of online "length percpu"]
    unfolding cpu_percent_of_def
    by (simp add: bind_exn_def oc spec_cpu_percent_def del: dict_get.simps)
qed

lemma mem_of_eq:
  assumes "dict_get stats ''memory_stats'' (JDict []) = Inr (JDict ms)"
    and "dict_get (JDict ms) ''usage'' (JInt 0) = Inr (JInt usage)"
    and "dict_get (JDict ms) ''limit'' (JInt 1) = Inr (JInt limit)"
    and "spec_mem_percent usage limit = Inr x"
  shows "mem_of stats = Inr (JInt usage, JInt limit, x)"
  using assms unfolding mem_of_def
  by (simp add: bind_exn_def spec_mem_percent_def del: dict_get.simps split: if_splits)

subsection \<open>Rounding at the example values\<close>

lemma fl_four_fifths: "fl (3602879701896397 / 4503599627370496) = Finite (3602879701896397 / 4503599627370496)"
  by (rule fl_finiteI [where L = "- 1" and m = 7205759403792794 and r = "3602879701896397 / 4503599627370496"])
     (simp_all add: num_eval)

lemma fl_eighty: "fl (90071992547409925 / 1125899906842624) = Finite (80)"
  by (rule fl_finiteI [where L = "6" and m = 5629499534213120 and r = "80"])
     (simp_all add: num_eval)

lemma fl_half: "fl (1 / 2) = Finite (1 / 2)"
  by (rule fl_finiteI [where L = "- 1" and m = 4503599627370496 and r = "1 / 2"])
     (simp_all add: num_eval)

lemma fl_odd_ratio: "fl (107 / 4000) = Finite (7710162562058289 / 288230376151711744)"
  by (rule fl_finiteI [where L = "- 6" and m = 7710162562058289 and r = "7710162562058289 / 288230376151711744"])
     (simp_all add: num_eval)

lemma fl_odd_percent: "fl (192754064051457225 / 72057594037927936) = Finite (3011782250804019 / 1125899906842624)"
  by (rule fl_finiteI [where L = "1" and m = 6023564501608038 and r = "3011782250804019 / 1125899906842624"])
     (simp_all add: num_eval)

lemma fl_odd_rounded: "fl (267 / 100) = Finite (1503076375634903 / 562949953421312)"
  by (rule fl_finiteI [where L = "1" and m = 6012305502539612 and r = "1503076375634903 / 562949953421312"])
     (simp_all add: num_eval)

lemma fl_large_usage: "fl (9007199254740993) = Finite (9007199254740992)"
  by (rule fl_finiteI [where L = "53" and m = 4503599627370496 and r = "9007199254740992"])
     (simp_all add: num_eval)

lemma fl_large_percent: "fl (900719925474099200) = Finite (900719925474099200)"
  by (rule fl_finiteI [where L = "59" and m = 7036874417766400 and r = "900719925474099200"])
     (simp_all add: num_eval)


lemma fl_small_ratio: "fl (1 / 20000) = Finite (7378697629483821 / 147573952589676412928)"
  by (rule fl_finiteI [where L = "- 15" and m = 7378697629483821 and r = "7378697629483821 / 147573952589676412928"])
     (simp_all add: num_eval)

lemma fl_small_scaled: "fl (7378697629483821 / 147573952589676412928) = Finite (7378697629483821 / 147573952589676412928)"
  by (rule fl_finiteI [where L = "- 15" and m = 7378697629483821 and r = "7378697629483821 / 147573952589676412928"])
     (simp_all add: num_eval)

lemma fl_small_percent: "fl (184467440737095525 / 36893488147419103232) = Finite (5764607523034235 / 1152921504606846976)"
  by (rule fl_finiteI [where L = "- 8" and m = 5764607523034235 and r = "5764607523034235 / 1152921504606846976"])
     (simp_all add: num_eval)

lemma fl_one_hundredth: "fl (1 / 100) = Finite (5764607523034235 / 576460752303423488)"
  by (rule fl_finiteI [where L = "- 7" and m = 5764607523034235 and r = "5764607523034235 / 576460752303423488"])
     (simp_all add: num_eval)


lemma fl_small_ints: "fl 1 = Finite 1" "fl 4 = Finite 4" "fl 100 = Finite 100" "fl 50 = Finite 50" "fl 80 = Finite 80"
  using fl_of_int [of 1] fl_of_int [of 4] fl_of_int [of 100] fl_of_int [of 50] fl_of_int [of 80] by simp_all

lemmas float_eval = int_truediv_def float_of_int_def fmul_int_def bind_exn_def fl_small_ints
  fl_one_fifth fl_four_fifths fl_eighty fl_half fl_odd_ratio fl_odd_percent fl_odd_rounded
  fl_large_usage fl_large_percent fl_small_ratio fl_small_scaled fl_small_percent fl_one_hundredth

lemma example_cpu_percent: "spec_cpu_percent 200 1000 4 = Inr (Finite 80)"
  by (simp add: spec_cpu_percent_def float_eval)

lemma example_mem_percent: "spec_mem_percent 512000000 1024000000 = Inr (Finite 50)"
  by (simp add: spec_mem_percent_def float_eval)

lemma example_odd_mem_percent:
  "spec_mem_percent 2675 100000 = Inr (Finite (3011782250804019 / 1125899906842624))"
  by (simp add: spec_mem_percent_def float_eval)

lemma example_odd_round:
  "py_round2 (Finite (3011782250804019 / 1125899906842624))
     = Inr (Finite (1503076375634903 / 562949953421312))"
  by (simp add: round_half_even_def Let_def floor_rat_numeral float_eval)

lemma example_small_cpu_percent:
  "spec_cpu_percent 1 20000 1 = Inr (Finite (5764607523034235 / 1152921504606846976))"
  by (simp add: spec_cpu_percent_def float_eval)

lemma example_small_round:
  "py_round2 (Finite (5764607523034235 / 1152921504606846976))
     = Inr (Finite (5764607523034235 / 576460752303423488))"
  by (simp add: round_half_even_def Let_def floor_rat_numeral float_eval)

lemma no_memory_counters:
  "map_of kv ''memory_stats'' = None \<Longrightarrow> mem_of (JDict kv) = Inr (JInt 0, JInt 1, Finite 0)"
proof -
  have z: "fl 0 = Finite 0" by (simp add: fl_def)
  assume "map_of kv ''memory_stats'' = None"
  then show ?thesis
    by (simp add: mem_of_def bind_exn_def int_truediv_def fmul_int_def float_of_int_def
          fl_small_ints z)
qed




subsection \<open>CPU percentage\<close>

text \<open>
  Claim C3. For a running container that the client lists, with integer counters in its
  snapshot pair, the collector computes
  \<open>cpu_percent = (cpu_usage_delta / system_cpu_delta) * online_cpu_count * 100\<close> in float
  arithmetic, and \<open>0\<close> when \<open>system_cpu_delta \<le> 0\<close>; the number of online CPUs is the
  reported one, else the length of the per-core usage list, else 1. The collector asks the
  container for its counters once and returns, at the container's position, a row with this
  value rounded to two decimals. With deltas 200 and 1000 and four CPUs the row reports 80;
  with deltas 1 and 20000 on one CPU the computed value is the float written 0.005 and the
  row reports the float written 0.01. (Here \<open>online = None\<close> stands for an absent or null
  \<^verbatim>\<open>online_cpus\<close> entry, and an absent \<^verbatim>\<open>system_cpu_usage\<close> counts as 0, as in the
  source.)
\<close>

theorem cpu_percent_formula:
  assumes "containers_list cl all_containers = Inr (pre @ c # post)"
    and "c_status c = ''running''"
    and "c_stats c = Inr stats"
    and "dict_get stats ''cpu_stats'' (JDict []) = Inr (JDict cs)"
    and "dict_get stats ''precpu_stats'' (JDict []) = Inr (JDict ps)"
    and "map_of cs ''cpu_usage'' = Some (JDict cu)"
    and "map_of cu ''total_usage'' = Some (JInt cur_total)"
    and "map_of ps ''cpu_usage'' = Some (JDict pcu)"
    and "map_of pcu ''total_usage'' = Some (JInt pre_total)"
    and "dict_get (JDict cs) ''system_cpu_usage'' (JInt 0) = Inr (JInt sys)"
    and "dict_get (JDict ps) ''system_cpu_usage'' (JInt 0) = Inr (JInt presys)"
    and "dict_get (JDict cs) ''online_cpus'' JNull = Inr (case online of None \<Rightarrow> JNull | Some k \<Rightarrow> JInt (int k))"
    and "dict_get (JDict cu) ''percpu_usage'' (JList []) = Inr (JList percpu)"
    and "spec_cpu_percent (cur_total - pre_total) (sys - presys)
           (spec_online_cpu_count online (length percpu)) = Inr x"
    and "py_round2 x = Inr cpu_r"
    and "mem_of stats = Inr (mu, ml, mp)"
    and "py_round2 mp = Inr mem_r"
    and "port_list (c_attrs c) = Inr published"
  shows "cpu_percent_of stats = Inr x
         \<and> (sys - presys \<le> 0 \<longrightarrow> x = Finite 0 \<and> cpu_r = Finite 0)
         \<and> collect_container_stats (Some cl) all_containers =
             (Called_containers_list all_containers
                # fst (collect_rows pre) @ Called_stats (c_id c) # fst (collect_rows post),
              Inr (snd (collect_rows pre)
                   @ \<lparr>container_id = take 12 (c_id c), container_name = c_name c,
                       row_status = c_status c, container_cpu_pct = cpu_r,
                       container_mem_pct = mem_r, container_mem_usage_bytes = mu,
                       container_mem_limit_bytes = ml, ports = join '', '' published\<rparr>
                   # snd (collect_rows post)))"
proof -
  have eq: "cpu_percent_of stats = Inr x"
    using cpu_percent_of_eq [OF assms(4-13)] assms(14) by simp
  have zero: "x = Finite 0 \<and> cpu_r = Finite 0" if "sys - presys \<le> 0"
  proof -
    have "x = Finite 0" using assms(14) that by (simp add: spec_cpu_percent_def)
    then show ?thesis using assms(15) py_round2_zero by simp
  qed
  note row = running_row [OF assms(2,3) eq assms(16,18,15,17)]
  from collect_listed [OF assms(1) row] eq zero show ?thesis by simp
qed

lemma example_port_list: "port_list example_attrs = Inr [''80/tcp->20080'']"
  by (simp add: port_list_def example_attrs_def bind_exn_def host_port_entry_def int_of_str_def
        strip_def py_isspace_def is_digit_def digits_val_def str_int_def digit_chr_def Let_def)

lemma example_mem_of:
  "mem_of example_stats = Inr (JInt 512000000, JInt 1024000000, Finite 50)"
  by (rule mem_of_eq [where ms = example_memory_stats])
     (simp_all add: example_stats_def example_memory_stats_def example_mem_percent)

lemma round_50_80: "py_round2 (Finite 50) = Inr (Finite 50)" "py_round2 (Finite 80) = Inr (Finite 80)"
  using py_round2_of_int [of 50] py_round2_of_int [of 80] by simp_all

text \<open>The formula at the two examples, through the whole collector.\<close>

theorem cpu_percent_formula_witness:
  "cpu_percent_of example_stats = Inr (Finite 80)
   \<and> collect_container_stats (Some (client_listing [example_running])) True =
       ([Called_containers_list True, Called_stats ''0123456789abcdef0123''],
        Inr [\<lparr>container_id = ''0123456789ab'', container_name = ''site1'',
              row_status = ''running'', container_cpu_pct = Finite 80,
              container_mem_pct = Finite 50, container_mem_usage_bytes = JInt 512000000,
              container_mem_limit_bytes = JInt 1024000000, ports = ''80/tcp->20080''\<rparr>])
   \<and> collect_container_stats (Some (client_listing [example_small_cpu])) False =
       ([Called_containers_list False, Called_stats ''2222333344445555''],
        Inr [\<lparr>container_id = ''222233334444'', container_name = ''site5'',
              row_status = ''running'',
              container_cpu_pct = Finite (5764607523034235 / 576460752303423488),
              container_mem_pct = Finite 0, container_mem_usage_bytes = JInt 0,
              container_mem_limit_bytes = JInt 1, ports = ''80/tcp->20080''\<rparr>])"
proof -
  have two: "cpu_percent_of
             (JDict [(''cpu_stats'',
                      JDict [(''cpu_usage'', JDict [(''total_usage'', JInt 1001)]),
                             (''system_cpu_usage'', JInt 25000), (''online_cpus'', JInt 1)]),
                     (''precpu_stats'',
                      JDict [(''cpu_usage'', JDict [(''total_usage'', JInt 1000)]),
                             (''system_cpu_usage'', JInt 5000)])])
           = Inr (Finite (5764607523034235 / 1152921504606846976))
         \<and> (25000 - 5000 \<le> (0::int) \<longrightarrow> Finite (5764607523034235 / 1152921504606846976) = Finite 0
               \<and> Finite (5764607523034235 / 576460752303423488) = Finite 0)
         \<and> collect_container_stats (Some (client_listing [example_small_cpu])) False =
             (Called_containers_list False
                # fst (collect_rows []) @ Called_stats (c_id example_small_cpu) # fst (collect_rows []),
              Inr (snd (collect_rows [])
                   @ \<lparr>container_id = take 12 (c_id example_small_cpu),
                       container_name = c_name example_small_cpu,
                       row_status = c_status example_small_cpu,
                       container_cpu_pct = Finite (5764607523034235 / 576460752303423488),
                       container_mem_pct = Finite 0,
                       container_mem_usage_bytes = JInt 0,
                       container_mem_limit_bytes = JInt 1,
                       ports = join '', '' [''80/tcp->20080'']\<rparr>
                   # snd (collect_rows [])))"
    by (rule cpu_percent_formula [where
          cs = "[(''cpu_usage'', JDict [(''total_usage'', JInt 1001)]),
                 (''system_cpu_usage'', JInt 25000), (''online_cpus'', JInt 1)]"
          and ps = "[(''cpu_usage'', JDict [(''total_usage'', JInt 1000)]),
                     (''system_cpu_usage'', JInt 5000)]"
          and cu = "[(''total_usage'', JInt 1001)]" and pcu = "[(''total_usage'', JInt 1000)]"
          and cur_total = 1001 and pre_total = 1000 and online = "Some 1" and percpu = "[]"
          and mp = "Finite 0"])
       (simp_all add: client_listing_def example_small_cpu_def
          spec_online_cpu_count_def example_small_cpu_percent example_small_round
          py_round2_zero example_port_list no_memory_counters
          del: py_round2.simps)
  have inst: "cpu_percent_of example_stats = Inr (Finite 80)
         \<and> (6000 - 5000 \<le> (0::int) \<longrightarrow> Finite 80 = Finite 0 \<and> Finite 80 = Finite 0)
         \<and> collect_container_stats (Some (client_listing [example_running])) True =
             (Called_containers_list True
                # fst (collect_rows []) @ Called_stats (c_id example_running) # fst (collect_rows []),
              Inr (snd (collect_rows [])
                   @ \<lparr>container_id = take 12 (c_id example_running),
                       container_name = c_name example_running,
                       row_status = c_status example_running, container_cpu_pct = Finite 80,
                       container_mem_pct = Finite 50,
                       container_mem_usage_bytes = JInt 512000000,
                       container_mem_limit_bytes = JInt 1024000000,
                       ports = join '', '' [''80/tcp->20080'']\<rparr>
                   # snd (collect_rows [])))"
    by (rule cpu_percent_formula [where cs = example_cpu_stats and ps = example_precpu_stats
          and cu = "[(''total_usage'', JInt 1200)]" and pcu = "[(''total_usage'', JInt 1000)]"
          and cur_total = 1200 and pre_total = 1000 and online = "Some 4" and percpu = "[]"
          and stats = example_stats and mp = "Finite 50"])
       (simp_all add: client_listing_def example_running_def example_stats_def
          example_cpu_stats_def example_precpu_stats_def spec_online_cpu_count_def
          example_cpu_percent round_50_80 example_port_list
          example_mem_of [unfolded example_stats_def example_cpu_stats_def example_precpu_stats_def]
          del: py_round2.simps)
  from inst two show ?thesis
    by (simp add: example_running_def example_small_cpu_def)
qed


subsection \<open>Memory percentage\<close>

text \<open>
  Claim C4. For a running container that the client lists, with integer memory usage and
  limit in its snapshot, the collector computes
  \<open>mem_percent = (memory_usage_bytes / memory_limit_bytes) * 100\<close> in float arithmetic, and
  \<open>0\<close> when the limit is 0; it returns, at the container's position, a row with this value
  rounded to two decimals, next to the usage and the limit. A usage of 512000000 with a
  limit of 1024000000 gives 50; a usage of 2675 with a limit of 100000 gives the float
  written 2.67. (An absent \<^verbatim>\<open>usage\<close> entry counts as 0, as in the source.)
\<close>

theorem mem_percent_formula:
  assumes "containers_list cl all_containers = Inr (pre @ c # post)"
    and "c_status c = ''running''"
    and "c_stats c = Inr stats"
    and "dict_get stats ''memory_stats'' (JDict []) = Inr (JDict ms)"
    and "dict_get (JDict ms) ''usage'' (JInt 0) = Inr (JInt usage)"
    and "map_of ms ''limit'' = Some (JInt limit)"
    and "spec_mem_percent usage limit = Inr x"
    and "py_round2 x = Inr mem_r"
    and "cpu_percent_of stats = Inr cp"
    and "py_round2 cp = Inr cpu_r"
    and "port_list (c_attrs c) = Inr published"
  shows "mem_of stats = Inr (JInt usage, JInt limit, x)
         \<and> (limit = 0 \<longrightarrow> x = Finite 0 \<and> mem_r = Finite 0)
         \<and> collect_container_stats (Some cl) all_containers =
             (Called_containers_list all_containers
                # fst (collect_rows pre) @ Called_stats (c_id c) # fst (collect_rows post),
              Inr (snd (collect_rows pre)
                   @ \<lparr>container_id = take 12 (c_id c), container_name = c_name c,
                       row_status = c_status c, container_cpu_pct = cpu_r,
                       container_mem_pct = mem_r, container_mem_usage_bytes = JInt usage,
                       container_mem_limit_bytes = JInt limit,
                       ports = join '', '' published\<rparr>
                   # snd (collect_rows post)))"
proof -
  have lim: "dict_get (JDict ms) ''limit'' (JInt 1) = Inr (JInt limit)"
    using assms(6) by simp
  have eq: "mem_of stats = Inr (JInt usage, JInt limit, x)"
    using assms(4,5) lim assms(7) by (rule mem_of_eq)
  have zero: "x = Finite 0 \<and> mem_r = Finite 0" if "limit = 0"
  proof -
    have "x = Finite 0" using assms(7) that by (simp add: spec_mem_percent_def)
    then show ?thesis using assms(8) py_round2_zero by simp
  qed
  note row = running_row [OF assms(2,3,9) eq assms(11,10,8)]
  from collect_listed [OF assms(1) row] eq zero show ?thesis by simp
qed

lemma no_cpu_counters:
  "map_of kv ''cpu_stats'' = None \<Longrightarrow> cpu_percent_of (JDict kv) = Inr (Finite 0)"
  by (simp add: cpu_percent_of_def bind_exn_def)

text \<open>The formula at the two examples, through the whole collector.\<close>

theorem mem_percent_formula_witness:
  "mem_of example_stats = Inr (JInt 512000000, JInt 1024000000, Finite 50)
   \<and> collect_container_stats (Some (client_listing [example_running])) True =
       ([Called_containers_list True, Called_stats ''0123456789abcdef0123''],
        Inr [\<lparr>container_id = ''0123456789ab'', container_name = ''site1'',
              row_status = ''running'', container_cpu_pct = Finite 80,
              container_mem_pct = Finite 50, container_mem_usage_bytes = JInt 512000000,
              container_mem_limit_bytes = JInt 1024000000, ports = ''80/tcp->20080''\<rparr>])
   \<and> collect_container_stats (Some (client_listing [example_odd_ratio])) False =
       ([Called_containers_list False, Called_stats ''aaaabbbbccccdddd''],
        Inr [\<lparr>container_id = ''aaaabbbbcccc'', container_name = ''site3'',
              row_status = ''running'', container_cpu_pct = Finite 0,
              container_mem_pct = Finite (1503076375634903 / 562949953421312),
              container_mem_usage_bytes = JInt 2675,
              container_mem_limit_bytes = JInt 100000, ports = ''80/tcp->20080''\<rparr>])"
proof -
  have cpu80: "cpu_percent_of example_stats = Inr (Finite 80)"
    using cpu_percent_of_eq [where stats = example_stats and cs = example_cpu_stats
        and ps = example_precpu_stats and cu = "[(''total_usage'', JInt 1200)]"
        and pcu = "[(''total_usage'', JInt 1000)]" and cur_total = 1200 and pre_total = 1000
        and sys = 6000 and presys = 5000 and online = "Some 4" and percpu = "[]"]
    by (simp add: example_stats_def example_cpu_stats_def example_precpu_stats_def
          spec_online_cpu_count_def example_cpu_percent)
  have one: "mem_of example_stats = Inr (JInt 512000000, JInt 1024000000, Finite 50)
         \<and> (1024000000 = (0::int) \<longrightarrow> Finite 50 = Finite 0 \<and> Finite 50 = Finite 0)
         \<and> collect_container_stats (Some (client_listing [example_running])) True =
             (Called_containers_list True
                # fst (collect_rows []) @ Called_stats (c_id example_running) # fst (collect_rows []),
              Inr (snd (collect_rows [])
                   @ \<lparr>container_id = take 12 (c_id example_running),
                       container_name = c_name example_running,
                       row_status = c_status example_running, container_cpu_pct = Finite 80,
                       container_mem_pct = Finite 50,
                       container_mem_usage_bytes = JInt 512000000,
                       container_mem_limit_bytes = JInt 1024000000,
                       ports = join '', '' [''80/tcp->20080'']\<rparr>
                   # snd (collect_rows [])))"
    by (rule mem_percent_formula [where ms = example_memory_stats and stats = example_stats
          and cp = "Finite 80"])
       (simp_all add: client_listing_def example_running_def example_memory_stats_def
          example_stats_def example_cpu_stats_def example_precpu_stats_def
          example_mem_percent round_50_80 example_port_list
          cpu80 [unfolded example_stats_def example_cpu_stats_def example_precpu_stats_def
                 example_memory_stats_def]
          del: py_round2.simps)
  have two: "mem_of (JDict [(''memory_stats'', JDict [(''usage'', JInt 2675), (''limit'', JInt 100000)])])
           = Inr (JInt 2675, JInt 100000, Finite (3011782250804019 / 1125899906842624))
         \<and> (100000 = (0::int) \<longrightarrow> Finite (3011782250804019 / 1125899906842624) = Finite 0
               \<and> Finite (1503076375634903 / 562949953421312) = Finite 0)
         \<and> collect_container_stats (Some (client_listing [example_odd_ratio])) False =
             (Called_containers_list False
                # fst (collect_rows []) @ Called_stats (c_id example_odd_ratio) # fst (collect_rows []),
              Inr (snd (collect_rows [])
                   @ \<lparr>container_id = take 12 (c_id example_odd_ratio),
                       container_name = c_name example_odd_ratio,
                       row_status = c_status example_odd_ratio, container_cpu_pct = Finite 0,
                       container_mem_pct = Finite (1503076375634903 / 562949953421312),
                       container_mem_usage_bytes = JInt 2675,
                       container_mem_limit_bytes = JInt 100000,
                       ports = join '', '' [''80/tcp->20080'']\<rparr>
                   # snd (collect_rows [])))"
    by (rule mem_percent_formula [where ms = "[(''usage'', JInt 2675), (''limit'', JInt 100000)]"
          and cp = "Finite 0"])
       (simp_all add: client_listing_def example_odd_ratio_def example_odd_mem_percent
          example_odd_round py_round2_zero example_port_list no_cpu_counters
          del: py_round2.simps)
  from one two show ?thesis
    by (simp add: example_running_def example_odd_ratio_def)
qed

subsection \<open>A snapshot without a memory limit\<close>





subsection \<open>Containers that are not running\<close>

text \<open>Port metadata as the runtime emits it always resolves.\<close>

lemma port_list_resolves:
  assumes "dict_get attrs ''NetworkSettings'' (JDict []) = Inr (JDict ns)"
    and "dict_get (JDict ns) ''Ports'' JNull = Inr p"
    and "p = JNull \<or> (\<exists>bindings. p = JDict bindings)"
  shows "\<exists>published. port_list attrs = Inr published"
proof (cases "truthy p")
  case False
  then show ?thesis using assms(1,2)
    by (simp add: port_list_def bind_exn_def del: dict_get.simps)
next
  case True
  then obtain bindings where p: "p = JDict bindings" and ne: "bindings \<noteq> []"
    using assms(3) by (cases p) simp_all
  obtain kv where attrs: "attrs = JDict kv"
    using assms(1) by (cases attrs) auto
  have published: "map_of ns ''Ports'' = Some (JDict bindings)"
  proof (cases "map_of ns ''Ports''")
    case None
    then show ?thesis using assms(2) p by simp
  next
    case (Some v)
    then show ?thesis using assms(2) p by simp
  qed
  have "map_of kv ''NetworkSettings'' = Some (JDict ns)"
  proof (cases "map_of kv ''NetworkSettings''")
    case None
    then have "ns = []" using assms(1) attrs by simp
    then show ?thesis using published by simp
  next
    case (Some v)
    then show ?thesis using assms(1) attrs by simp
  qed
  with published show ?thesis
    using ne unfolding attrs port_list_def by (simp add: bind_exn_def)
qed

text \<open>
  Claim C8. For a listed container whose status is not \<^verbatim>\<open>'running'\<close> the collector
  returns, at the container's position, a row that reports 0 for the CPU percentage, the
  memory percentage, the memory usage and the memory limit. It raises nothing and logs
  nothing for this container, and it does not call \<^verbatim>\<open>c.stats\<close>: the calls made are the
  listing and those made for the other containers. The only exception the loop body can
  meet for such a container comes from the port metadata, and with the metadata the runtime
  emits (a \<^verbatim>\<open>NetworkSettings\<close> dictionary whose \<^verbatim>\<open>Ports\<close> entry is absent, null or a
  dictionary) a row is produced.
\<close>

theorem non_running_reports_zero:
  assumes "containers_list cl all_containers = Inr (pre @ c # post)"
    and "c_status c \<noteq> ''running''"
    and "dict_get (c_attrs c) ''NetworkSettings'' (JDict []) = Inr (JDict ns)"
    and "dict_get (JDict ns) ''Ports'' JNull = Inr p"
    and "p = JNull \<or> (\<exists>bindings. p = JDict bindings)"
  shows "\<exists>published. port_list (c_attrs c) = Inr published
           \<and> collect_container_stats (Some cl) all_containers =
               (Called_containers_list all_containers
                  # fst (collect_rows pre) @ fst (collect_rows post),
                Inr (snd (collect_rows pre)
                     @ \<lparr>container_id = take 12 (c_id c), container_name = c_name c,
                         row_status = c_status c, container_cpu_pct = Finite 0,
                         container_mem_pct = Finite 0, container_mem_usage_bytes = JInt 0,
                         container_mem_limit_bytes = JInt 0,
                         ports = join '', '' published\<rparr>
                     # snd (collect_rows post)))"
proof -
  obtain published where pl: "port_list (c_attrs c) = Inr published"
    using port_list_resolves [OF assms(3-5)] by (elim exE)
  note row = not_running_row [OF assms(2) pl]
  from collect_listed [OF assms(1) row] pl show ?thesis by simp
qed

lemma example_running_row:
  "container_row example_running =
     ([Called_stats ''0123456789abcdef0123''],
      Inr \<lparr>container_id = ''0123456789ab'', container_name = ''site1'',
           row_status = ''running'', container_cpu_pct = Finite 80,
           container_mem_pct = Finite 50, container_mem_usage_bytes = JInt 512000000,
           container_mem_limit_bytes = JInt 1024000000, ports = ''80/tcp->20080''\<rparr>)"
proof -
  have cpu80: "cpu_percent_of example_stats = Inr (Finite 80)"
    using cpu_percent_of_eq [where stats = example_stats and cs = example_cpu_stats
        and ps = example_precpu_stats and cu = "[(''total_usage'', JInt 1200)]"
        and pcu = "[(''total_usage'', JInt 1000)]" and cur_total = 1200 and pre_total = 1000
        and sys = 6000 and presys = 5000 and online = "Some 4" and percpu = "[]"]
    by (simp add: example_stats_def example_cpu_stats_def example_precpu_stats_def
          spec_online_cpu_count_def example_cpu_percent)
  have "container_row example_running =
           ([Called_stats (c_id example_running)],
            Inr \<lparr>container_id = take 12 (c_id example_running),
                 container_name = c_name example_running,
                 row_status = c_status example_running, container_cpu_pct = Finite 80,
                 container_mem_pct = Finite 50, container_mem_usage_bytes = JInt 512000000,
                 container_mem_limit_bytes = JInt 1024000000,
                 ports = join '', '' [''80/tcp->20080'']\<rparr>)"
    by (rule running_row [OF _ _ cpu80 example_mem_of _ round_50_80(2) round_50_80(1)])
       (simp_all add: example_running_def example_port_list)
  then show ?thesis by (simp add: example_running_def)
qed

text \<open>
  A running container followed by a stopped one whose \<^verbatim>\<open>stats\<close> call would raise: the
  only \<^verbatim>\<open>stats\<close> call is the one for the running container.
\<close>

theorem non_running_reports_zero_witness:
  "collect_container_stats (Some (client_listing [example_running, example_exited])) True =
     ([Called_containers_list True, Called_stats ''0123456789abcdef0123''],
      Inr [\<lparr>container_id = ''0123456789ab'', container_name = ''site1'',
            row_status = ''running'', container_cpu_pct = Finite 80,
            container_mem_pct = Finite 50, container_mem_usage_bytes = JInt 512000000,
            container_mem_limit_bytes = JInt 1024000000, ports = ''80/tcp->20080''\<rparr>,
           \<lparr>container_id = ''fedcba987654'', container_name = ''site2'',
            row_status = ''exited'', container_cpu_pct = Finite 0,
            container_mem_pct = Finite 0, container_mem_usage_bytes = JInt 0,
            container_mem_limit_bytes = JInt 0, ports = ''N/A''\<rparr>])"
proof -
  have pl: "port_list (c_attrs example_exited) = Inr [''N/A'']"
    by (simp add: example_exited_def port_list_def bind_exn_def)
  have pre: "collect_rows [example_running] =
      ([Called_stats ''0123456789abcdef0123''],
       [\<lparr>container_id = ''0123456789ab'', container_name = ''site1'',
            row_status = ''running'', container_cpu_pct = Finite 80,
            container_mem_pct = Finite 50, container_mem_usage_bytes = JInt 512000000,
            container_mem_limit_bytes = JInt 1024000000, ports = ''80/tcp->20080''\<rparr>])"
    by (simp add: example_running_row)
  have "\<exists>published. port_list (c_attrs example_exited) = Inr published
           \<and> collect_container_stats (Some (client_listing [example_running, example_exited])) True =
               (Called_containers_list True
                  # fst (collect_rows [example_running]) @ fst (collect_rows []),
                Inr (snd (collect_rows [example_running])
                     @ \<lparr>container_id = take 12 (c_id example_exited),
                         container_name = c_name example_exited,
                         row_status = c_status example_exited, container_cpu_pct = Finite 0,
                         container_mem_pct = Finite 0, container_mem_usage_bytes = JInt 0,
                         container_mem_limit_bytes = JInt 0,
                         ports = join '', '' published\<rparr>
                     # snd (collect_rows [])))"
    by (rule non_running_reports_zero [where ns = "[(''Ports'', JDict [])]" and p = "JDict []"])
       (simp_all add: client_listing_def example_exited_def)
  then show ?thesis
    unfolding pl pre by (simp add: example_exited_def)
qed

subsection \<open>No client\<close>

text \<open>
  Claim C10. When \<^verbatim>\<open>docker.from_env()\<close> raises at module initialisation, the client is
  \<^verbatim>\<open>None\<close>, and every call of \<^verbatim>\<open>collect_container_stats\<close> returns the empty list
  (after the informational log line), whatever the flag \<^verbatim>\<open>all_containers\<close> is.
\<close>

theorem no_client_no_rows:
  "collect_container_stats (snd (docker_client_setup (Inl e))) all_containers
     = ([Info_client_not_initialized], Inr [])"
  by (simp add: docker_client_setup_def collect_container_stats_def)

end
